theory Spec2Isabelle
  imports Complex_Main "HOL-Library.Sublist"
begin

section \<open>Python values and exceptions\<close>

text \<open>
  The exceptions the two scripts can meet. \<open>ConfigValueError\<close> is the \<open>ValueError\<close>
  that \<open>load_config\<close> raises itself, with the problem it reports; \<open>ValueError\<close> is any
  other \<open>ValueError\<close> (an empty \<open>randint\<close> range, an undecodable file, a negative
  sleep). \<open>sys.exit(n)\<close> raises \<open>SystemExit n\<close>, which passes through every
  \<open>finally\<close> on its way out.
\<close>

datatype config_problem =
    NoBrokerSection
  | NoMachinesArray
  | MachinesNotArray
  | BrokerFieldMissing string
  | EntryNotObject nat
  | EntryTypeMissing nat
  | EntryTopicMissing nat

datatype py_exn =
    ConfigValueError config_problem
  | ValueError
  | TypeError
  | KeyError
  | AttributeError
  | OSError
  | FileNotFoundError
  | JSONDecodeError
  | CalledProcessError
  | SystemExit int

section \<open>generate\_sample\_payloads.py: the dates of a payload\<close>

text \<open>
  A naive \<open>datetime\<close> is a count of microseconds (its resolution), a \<open>timedelta\<close> a
  difference of two. \<open>timedelta(days=n)\<close> is \<open>n\<close> days; the \<open>.days\<close> attribute of a
  normalised \<open>timedelta\<close> is the floor of its length in days, which is \<open>div\<close> on \<open>int\<close>.
\<close>

definition usec_per_day :: int where
  "usec_per_day = 86400000000"

definition timedelta_days :: "int \<Rightarrow> int" where
  "timedelta_days n = n * usec_per_day"

definition days_of :: "int \<Rightarrow> int" where
  "days_of td = td div usec_per_day"

text \<open>
  \<open>random.randint(a, b)\<close> raises \<open>ValueError\<close> on an empty range and otherwise
  returns some integer of \<open>[a, b]\<close>. The generator's state is the parameter \<open>raw\<close>, any
  integer: \<open>a + raw mod (b - a + 1)\<close> reaches every value of the range and no other.
\<close>

definition randint :: "int \<Rightarrow> int \<Rightarrow> int \<Rightarrow> py_exn + int" where
  "randint a b raw = (if b < a then Inl ValueError else Inr (a + raw mod (b - a + 1)))"

text \<open>
  \<open>generate_construction_date\<close> and \<open>generate_operation_date\<close>, with the clock
  reading \<open>now\<close> of their \<open>datetime.now()\<close> and the random draw as parameters.
\<close>

definition generate_construction_date :: "int \<Rightarrow> int \<Rightarrow> py_exn + int" where
  "generate_construction_date now raw =
     (let end_date = now;
          start_date = end_date - timedelta_days (20 * 365)
      in case randint 0 (days_of (end_date - start_date)) raw of
           Inl e \<Rightarrow> Inl e
         | Inr random_days \<Rightarrow> Inr (start_date + timedelta_days random_days))"

definition generate_operation_date :: "int \<Rightarrow> int \<Rightarrow> int \<Rightarrow> py_exn + int" where
  "generate_operation_date now raw construction_date =
     (let end_date = now;
          earliest_operation = max construction_date (end_date - timedelta_days (10 * 365));
          earliest_operation =
            (if earliest_operation \<ge> end_date then construction_date else earliest_operation)
      in case randint 0 (days_of (end_date - earliest_operation)) raw of
           Inl e \<Rightarrow> Inl e
         | Inr random_days \<Rightarrow> Inr (earliest_operation + timedelta_days random_days))"

text \<open>
  The three dates of \<open>generate_machine_payload\<close> (lines 128 to 130): each call reads
  the clock and draws once.
\<close>

record payload_dates =
  date_of_construction :: int
  date_of_operation :: int
  date_of_software :: int

definition generate_dates :: "int \<Rightarrow> int \<Rightarrow> int \<Rightarrow> int \<Rightarrow> int \<Rightarrow> int \<Rightarrow> py_exn + payload_dates" where
  "generate_dates now1 raw1 now2 raw2 now3 raw3 =
     (case generate_construction_date now1 raw1 of
        Inl e \<Rightarrow> Inl e
      | Inr c \<Rightarrow>
          (case generate_operation_date now2 raw2 c of
             Inl e \<Rightarrow> Inl e
           | Inr operation \<Rightarrow>
               (case generate_operation_date now3 raw3 c of
                  Inl e \<Rightarrow> Inl e
                | Inr software \<Rightarrow>
                    Inr \<lparr>date_of_construction = c, date_of_operation = operation,
                         date_of_software = software\<rparr>)))"


section \<open>JSON documents\<close>

text \<open>
  What \<open>json.load\<close> returns: \<open>None\<close>, a \<open>bool\<close>, an \<open>int\<close>, a \<open>float\<close>, a
  \<open>str\<close>, a \<open>list\<close> or a \<open>dict\<close> with \<open>str\<close> keys. A \<open>dict\<close> is its association
  list, read with \<open>map_of\<close>.
\<close>

datatype pyfloat = Finite rat | PosInf | NegInf | NaN

datatype json =
    JNull
  | JBool bool
  | JInt int
  | JFloat pyfloat
  | JStr string
  | JArr "json list"
  | JObj "(string \<times> json) list"

text \<open>\<open>k in v\<close> for a \<open>str\<close> \<open>k\<close>: a key of a dict, an element of a list, a substring
  of a string; a \<open>TypeError\<close> on anything else.\<close>

fun py_contains :: "string \<Rightarrow> json \<Rightarrow> py_exn + bool" where
  "py_contains k (JObj kvs) = Inr (map_of kvs k \<noteq> None)"
| "py_contains k (JArr xs) = Inr (List.member xs (JStr k))"
| "py_contains k (JStr s) = Inr (sublist k s)"
| "py_contains k v = Inl TypeError"

text \<open>\<open>v[k]\<close> for a \<open>str\<close> \<open>k\<close>: \<open>KeyError\<close> on a dict without the key, \<open>TypeError\<close>
  on every other value (a list or a string wants an integer index, the rest cannot be
  subscripted).\<close>

fun py_getitem :: "json \<Rightarrow> string \<Rightarrow> py_exn + json" where
  "py_getitem (JObj kvs) k = (case map_of kvs k of None \<Rightarrow> Inl KeyError | Some v \<Rightarrow> Inr v)"
| "py_getitem v k = Inl TypeError"

text \<open>\<open>v.get(k, default)\<close>: only a dict has the method.\<close>

fun py_get :: "json \<Rightarrow> string \<Rightarrow> json \<Rightarrow> py_exn + json" where
  "py_get (JObj kvs) k dflt = Inr (case map_of kvs k of None \<Rightarrow> dflt | Some v \<Rightarrow> v)"
| "py_get v k dflt = Inl AttributeError"

text \<open>\<open>v.endswith(s)\<close>: only a string has the method.\<close>

fun py_endswith :: "json \<Rightarrow> string \<Rightarrow> py_exn + bool" where
  "py_endswith (JStr t) s = Inr (suffix s t)"
| "py_endswith v s = Inl AttributeError"

text \<open>\<open>len(v)\<close> and the elements a \<open>for\<close> loop over \<open>v\<close> visits.\<close>

fun py_len :: "json \<Rightarrow> py_exn + nat" where
  "py_len (JArr xs) = Inr (length xs)"
| "py_len (JObj kvs) = Inr (length kvs)"
| "py_len (JStr s) = Inr (length s)"
| "py_len v = Inl TypeError"

fun py_iter :: "json \<Rightarrow> py_exn + json list" where
  "py_iter (JArr xs) = Inr xs"
| "py_iter (JObj kvs) = Inr (map (\<lambda>kv. JStr (fst kv)) kvs)"
| "py_iter (JStr s) = Inr (map (\<lambda>c. JStr [c]) s)"
| "py_iter v = Inl TypeError"

text \<open>\<open>range(v)\<close>: an \<open>int\<close> (a \<open>bool\<close> is one) gives \<open>0, \<dots>, v - 1\<close>, anything else
  a \<open>TypeError\<close>. \<open>py_index\<close> is the integer an \<open>int\<close> or \<open>bool\<close> stands for.\<close>

fun py_index :: "json \<Rightarrow> py_exn + int" where
  "py_index (JInt n) = Inr n"
| "py_index (JBool b) = Inr (if b then 1 else 0)"
| "py_index v = Inl TypeError"

definition py_range :: "json \<Rightarrow> py_exn + nat list" where
  "py_range v = (case py_index v of Inl e \<Rightarrow> Inl e | Inr n \<Rightarrow> Inr [0..<nat n])"

fun is_dict :: "json \<Rightarrow> bool" where
  "is_dict (JObj kvs) = True"
| "is_dict v = False"

fun is_list :: "json \<Rightarrow> bool" where
  "is_list (JArr xs) = True"
| "is_list v = False"

section \<open>Effects: a trace of events and a result or an exception\<close>

text \<open>
  What the program prints, one constructor for each \<open>print\<close> of
  \<open>publish_machineid.py\<close>, with the values the line interpolates.
\<close>

datatype msg =
    LoadingConfiguration
  | ConfigNotFound
  | ConfigMalformed
  | ConfigInvalid py_exn
  | ConnectingToBroker
  | FailedToConnect
  | Processing nat nat json
  | ErrorGeneratingPayload json
  | ErrorParsingJSON json
  | FailedToGenerate json
  | WouldPublish json json json bool
  | RetryAttempt nat json
  | PublishedVerbose json json json bool
  | Published json json
  | FailedToPublish json json
  | Summary bool nat nat int
  | NoPayloads bool
  | OnlySome bool nat nat
  | AllSucceeded bool

text \<open>
  The events of a run, in the order they happen: a line on standard output or standard
  error, a call of \<open>MQTTPublisher.connect\<close>, the subprocess that generates a payload
  for a machine type, a call of \<open>MQTTPublisher.publish\<close> with its topic, payload and
  timeout, a call of \<open>time.sleep\<close>, a call of \<open>MQTTPublisher.disconnect\<close>.
\<close>

datatype event =
    Stdout msg
  | Stderr msg
  | Connect
  | Generate json
  | Publish json json json
  | Sleep json
  | Disconnect

type_synonym 'a io = "event list \<times> (py_exn + 'a)"

definition bind_io :: "'a io \<Rightarrow> ('a \<Rightarrow> 'b io) \<Rightarrow> 'b io" where
  "bind_io m f =
     (case m of
        (tr, Inl e) \<Rightarrow> (tr, Inl e)
      | (tr, Inr x) \<Rightarrow> (case f x of (tr', r) \<Rightarrow> (tr @ tr', r)))"

definition lift_io :: "py_exn + 'a \<Rightarrow> 'a io" where
  "lift_io r = ([], r)"

definition emit :: "event \<Rightarrow> unit io" where
  "emit ev = ([ev], Inr ())"

definition emit_if :: "bool \<Rightarrow> event \<Rightarrow> unit io" where
  "emit_if b ev = (if b then emit ev else ([], Inr ()))"

text \<open>\<open>try: m finally: fin\<close>, for a finaliser that does not raise: its events follow
  those of \<open>m\<close> whether \<open>m\<close> returned or raised.\<close>

definition try_finally :: "'a io \<Rightarrow> event list \<Rightarrow> 'a io" where
  "try_finally m fin = (case m of (tr, r) \<Rightarrow> (tr @ fin, r))"

text \<open>
  A \<open>for\<close> loop whose body may \<open>break\<close>: the body returns \<open>True\<close> when it breaks.
  The loop returns whether it was left by \<open>break\<close>.
\<close>

fun for_break :: "('a \<Rightarrow> bool io) \<Rightarrow> 'a list \<Rightarrow> bool io" where
  "for_break body [] = ([], Inr False)"
| "for_break body (x # xs) =
     (case body x of
        (tr, Inl e) \<Rightarrow> (tr, Inl e)
      | (tr, Inr True) \<Rightarrow> (tr, Inr True)
      | (tr, Inr False) \<Rightarrow> (case for_break body xs of (tr', r) \<Rightarrow> (tr @ tr', r)))"

section \<open>publish\_machineid.py: load\_config\<close>

text \<open>
  The checks of the \<open>try\<close> body on the parsed document (lines 26 to 53): the two loops
  first, then the body. Every \<open>raise ValueError\<close> carries the problem it reports.
\<close>

fun check_broker_fields :: "json \<Rightarrow> string list \<Rightarrow> py_exn + unit" where
  "check_broker_fields broker_config [] = Inr ()"
| "check_broker_fields broker_config (field # others) =
     (case py_contains field broker_config of
        Inl e \<Rightarrow> Inl e
      | Inr present \<Rightarrow>
          if \<not> present then Inl (ConfigValueError (BrokerFieldMissing field))
          else check_broker_fields broker_config others)"

fun check_machines :: "nat \<Rightarrow> json list \<Rightarrow> py_exn + unit" where
  "check_machines i [] = Inr ()"
| "check_machines i (machine # machines) =
     (if \<not> is_dict machine then Inl (ConfigValueError (EntryNotObject i))
      else
        (case py_contains ''type'' machine of
           Inl e \<Rightarrow> Inl e
         | Inr has_type \<Rightarrow>
             if \<not> has_type then Inl (ConfigValueError (EntryTypeMissing i))
             else
               (case py_contains ''topic'' machine of
                  Inl e \<Rightarrow> Inl e
                | Inr has_topic \<Rightarrow>
                    if \<not> has_topic then Inl (ConfigValueError (EntryTopicMissing i))
                    else check_machines (Suc i) machines)))"

definition validate :: "json \<Rightarrow> py_exn + json" where
  "validate config =
     (case py_contains ''mqtt_broker'' config of
        Inl e \<Rightarrow> Inl e
      | Inr has_broker \<Rightarrow>
          if \<not> has_broker then Inl (ConfigValueError NoBrokerSection)
          else
     (case py_contains ''machines'' config of
        Inl e \<Rightarrow> Inl e
      | Inr has_machines \<Rightarrow>
          if \<not> has_machines then Inl (ConfigValueError NoMachinesArray)
          else
     (case py_getitem config ''machines'' of
        Inl e \<Rightarrow> Inl e
      | Inr machines \<Rightarrow>
          if \<not> is_list machines then Inl (ConfigValueError MachinesNotArray)
          else
     (case py_getitem config ''mqtt_broker'' of
        Inl e \<Rightarrow> Inl e
      | Inr broker_config \<Rightarrow>
     (case check_broker_fields broker_config [''host'', ''port''] of
        Inl e \<Rightarrow> Inl e
      | Inr u \<Rightarrow>
     (case py_iter machines of
        Inl e \<Rightarrow> Inl e
      | Inr entries \<Rightarrow>
     (case check_machines 0 entries of
        Inl e \<Rightarrow> Inl e
      | Inr u \<Rightarrow> Inr config)))))))"

text \<open>
  \<open>load_config\<close>. Its argument is what \<open>open\<close> and \<open>json.load\<close> give for the path:
  the parsed document, or the exception they raise (\<open>FileNotFoundError\<close>,
  \<open>JSONDecodeError\<close>, another \<open>OSError\<close>, a \<open>ValueError\<close> for text that does not
  decode). The three handlers follow in their order: \<open>FileNotFoundError\<close> and
  \<open>JSONDecodeError\<close> have their own; \<open>except ValueError\<close> takes the \<open>ValueError\<close>s
  that are left; each prints its line and calls \<open>sys.exit(1)\<close>. Any other exception
  leaves \<open>load_config\<close>.
\<close>

fun is_ValueError :: "py_exn \<Rightarrow> bool" where
  "is_ValueError (ConfigValueError p) = True"
| "is_ValueError ValueError = True"
| "is_ValueError e = False"

definition load_config :: "py_exn + json \<Rightarrow> json io" where
  "load_config opened =
     (case (case opened of Inl e \<Rightarrow> Inl e | Inr config \<Rightarrow> validate config) of
        Inr config \<Rightarrow> ([], Inr config)
      | Inl e \<Rightarrow>
          if e = FileNotFoundError then ([Stderr ConfigNotFound], Inl (SystemExit 1))
          else if e = JSONDecodeError then ([Stderr ConfigMalformed], Inl (SystemExit 1))
          else if is_ValueError e then ([Stderr (ConfigInvalid e)], Inl (SystemExit 1))
          else ([], Inl e))"

section \<open>publish\_machineid.py: MQTTPublisher.publish\<close>

text \<open>
  What the method does depends on the broker and on the client's background thread.
  They are the parameters of the model:
  \<^item> \<open>connected_flag\<close>: the flag \<open>self.connected\<close> when \<open>publish\<close> is called (the
    callbacks \<open>on_connect\<close> and \<open>on_disconnect\<close> write it);
  \<^item> \<open>client_publish\<close>: what \<open>self.client.publish\<close> gives, the pair of \<open>result.rc\<close> and
    \<open>result.mid\<close> or an exception;
  \<^item> \<open>acked r\<close>: what the \<open>r\<close>-th read of \<open>self.publish_results[mid]\<close> sees, after the
    method has set it to \<open>False\<close> (\<open>on_publish\<close> sets it to \<open>True\<close>);
  \<^item> \<open>in_time timeout k\<close>: what \<open>wait_time < timeout\<close> gives after \<open>k\<close> additions of
    \<open>0.1\<close> to \<open>wait_time\<close> (a \<open>TypeError\<close> when \<open>timeout\<close> is not a number). It is a
    parameter because \<open>wait_time\<close> is a \<open>float\<close>.
\<close>

record publish_env =
  connected_flag :: bool
  client_publish :: "py_exn + int \<times> nat"
  acked :: "nat \<Rightarrow> bool"
  in_time :: "json \<Rightarrow> nat \<Rightarrow> py_exn + bool"

datatype pub_event =
    NotConnected
  | ClientPublish json json json json
  | FailedReturnCode int
  | PollSleep
  | PublishTimeout
  | ErrorPublishing py_exn

definition MQTT_ERR_SUCCESS :: int where
  "MQTT_ERR_SUCCESS = 0"

text \<open>
  The loop \<open>while not self.publish_results[mid] and wait_time < timeout\<close>: the test
  after \<open>k\<close> sleeps reads the table and then, if there is no acknowledgment yet, the
  clock. The result is the number of sleeps and the exception the test raised, if any;
  \<open>None\<close> is a loop that never ends.
\<close>

partial_function (option) wait_for_ack ::
  "(nat \<Rightarrow> bool) \<Rightarrow> (nat \<Rightarrow> py_exn + bool) \<Rightarrow> nat \<Rightarrow> (nat \<times> py_exn option) option" where
  "wait_for_ack ack clock k =
     (if ack k then Some (k, None)
      else if clock k = Inr True then wait_for_ack ack clock (Suc k)
      else Some (k, case clock k of Inl e \<Rightarrow> Some e | Inr b \<Rightarrow> None))"

declare wait_for_ack.simps [code]

text \<open>
  The body of the \<open>try\<close> of \<open>publish\<close>. The serialised payload stands for itself; the
  read of the table after the loop is the one that follows the loop's last.
\<close>

definition publish_body ::
  "json \<Rightarrow> publish_env \<Rightarrow> json \<Rightarrow> json \<Rightarrow> json
     \<Rightarrow> (pub_event list \<times> (py_exn + bool)) option" where
  "publish_body broker_config env topic payload timeout =
     (case py_get broker_config ''qos'' (JInt 0) of
        Inl e \<Rightarrow> Some ([], Inl e)
      | Inr qos \<Rightarrow>
          (case py_get broker_config ''retain'' (JBool False) of
             Inl e \<Rightarrow> Some ([], Inl e)
           | Inr retain \<Rightarrow>
               (case client_publish env of
                  Inl e \<Rightarrow> Some ([ClientPublish topic payload qos retain], Inl e)
                | Inr (rc, mid) \<Rightarrow>
                    if rc \<noteq> MQTT_ERR_SUCCESS
                    then Some ([ClientPublish topic payload qos retain, FailedReturnCode rc],
                               Inr False)
                    else
                      (case wait_for_ack (acked env) (in_time env timeout) 0 of
                         None \<Rightarrow> None
                       | Some (k, Some e) \<Rightarrow>
                           Some (ClientPublish topic payload qos retain # replicate k PollSleep,
                                 Inl e)
                       | Some (k, None) \<Rightarrow>
                           if acked env (Suc k)
                           then Some (ClientPublish topic payload qos retain
                                        # replicate k PollSleep, Inr True)
                           else Some (ClientPublish topic payload qos retain
                                        # replicate k PollSleep @ [PublishTimeout],
                                      Inr False)))))"

text \<open>\<open>except Exception\<close> takes every exception of the model but \<open>SystemExit\<close>.\<close>

fun is_Exception :: "py_exn \<Rightarrow> bool" where
  "is_Exception (SystemExit n) = False"
| "is_Exception e = True"

definition publish ::
  "json \<Rightarrow> publish_env \<Rightarrow> json \<Rightarrow> json \<Rightarrow> json
     \<Rightarrow> (pub_event list \<times> (py_exn + bool)) option" where
  "publish broker_config env topic payload timeout =
     (if \<not> connected_flag env then Some ([NotConnected], Inr False)
      else case publish_body broker_config env topic payload timeout of
        None \<Rightarrow> None
      | Some (tr, Inr b) \<Rightarrow> Some (tr, Inr b)
      | Some (tr, Inl e) \<Rightarrow>
          if is_Exception e then Some (tr @ [ErrorPublishing e], Inr False)
          else Some (tr, Inl e))"

section \<open>publish\_machineid.py: main\<close>

text \<open>
  The command line (\<open>--verbose\<close>, \<open>--dry-run\<close>) and the world \<open>main\<close> runs in:
  \<^item> \<open>opened_config\<close>: what \<open>open\<close> and \<open>json.load\<close> give for the configuration file;
  \<^item> \<open>connect_result\<close>: what \<open>publisher.connect()\<close> returns;
  \<^item> \<open>generator k\<close>: what \<open>subprocess.run\<close> and \<open>json.loads\<close> give for job \<open>k\<close>
    (counted from 0): the parsed standard output of \<open>generate_sample_payloads.py\<close>, or
    \<open>CalledProcessError\<close>, \<open>JSONDecodeError\<close> or another exception;
  \<^item> \<open>publish_result k n\<close>: what \<open>publisher.publish\<close> returns at attempt \<open>n\<close> of job
    \<open>k\<close> (the broker-session stub of a test);
  \<^item> \<open>sleep_raises d\<close>: the exception \<open>time.sleep(d)\<close> raises, if it does.
\<close>

record args =
  verbose :: bool
  dry_run :: bool

record env =
  opened_config :: "py_exn + json"
  connect_result :: bool
  generator :: "nat \<Rightarrow> py_exn + json"
  publish_result :: "nat \<Rightarrow> nat \<Rightarrow> bool"
  sleep_raises :: "json \<Rightarrow> py_exn option"

definition wrapper_key :: string where
  "wrapper_key = ''MachineIdentificationType''"

text \<open>\<open>generate_machine_payload\<close> of \<open>publish_machineid.py\<close>: \<open>None\<close> is \<open>JNull\<close>.\<close>

definition generate_machine_payload :: "(py_exn + json) \<Rightarrow> json \<Rightarrow> json io" where
  "generate_machine_payload outcome machine_type =
     bind_io (emit (Generate machine_type)) (\<lambda>u.
       case outcome of
         Inr payload \<Rightarrow> ([], Inr payload)
       | Inl e \<Rightarrow>
           if e = CalledProcessError
           then ([Stderr (ErrorGeneratingPayload machine_type)], Inr JNull)
           else if e = JSONDecodeError
           then ([Stderr (ErrorParsingJSON machine_type)], Inr JNull)
           else ([], Inl e))"

text \<open>Lines 260 to 263: the payload that is published.\<close>

definition publish_payload_for :: "json \<Rightarrow> json \<Rightarrow> py_exn + json" where
  "publish_payload_for topic payload =
     (case py_endswith topic wrapper_key of
        Inl e \<Rightarrow> Inl e
      | Inr stripped \<Rightarrow> if stripped then py_getitem payload wrapper_key else Inr payload)"

text \<open>\<open>payload['MachineIdentificationType']['AssetId']\<close>.\<close>

definition asset_id_of :: "json \<Rightarrow> py_exn + json" where
  "asset_id_of payload =
     (case py_getitem payload wrapper_key of
        Inl e \<Rightarrow> Inl e
      | Inr inner \<Rightarrow> py_getitem inner ''AssetId'')"

definition py_sleep :: "(json \<Rightarrow> py_exn option) \<Rightarrow> json \<Rightarrow> unit io" where
  "py_sleep raises secs =
     (case raises secs of Some e \<Rightarrow> ([], Inl e) | None \<Rightarrow> ([Sleep secs], Inr ()))"

text \<open>The body of the retry loop (lines 279 to 294); \<open>True\<close> is its \<open>break\<close>.\<close>

definition attempt_publish ::
  "args \<Rightarrow> env \<Rightarrow> nat \<Rightarrow> json \<Rightarrow> json \<Rightarrow> json \<Rightarrow> json \<Rightarrow> json \<Rightarrow> json \<Rightarrow> json \<Rightarrow> nat
     \<Rightarrow> bool io" where
  "attempt_publish a env k machine_type topic payload publish_payload publish_timeout
       retry_attempts retry_delay attempt =
     bind_io (emit_if (verbose a \<and> attempt > 0)
                (Stdout (RetryAttempt (attempt + 1) retry_attempts))) (\<lambda>u.
     bind_io (emit (Publish topic publish_payload publish_timeout)) (\<lambda>u.
     if publish_result env k attempt then
       bind_io (lift_io (asset_id_of payload)) (\<lambda>asset_id.
       bind_io (lift_io (py_endswith topic wrapper_key)) (\<lambda>stripped.
       bind_io (emit (Stdout (if verbose a
                              then PublishedVerbose machine_type asset_id topic stripped
                              else Published machine_type topic))) (\<lambda>u.
       ([], Inr True))))
     else
       bind_io (lift_io (py_index retry_attempts)) (\<lambda>n.
       bind_io (if int attempt < n - 1 then py_sleep (sleep_raises env) retry_delay
                else ([], Inr ())) (\<lambda>u.
       ([], Inr False)))))"

text \<open>Lines 272 to 297: the publication of one payload, with retries.\<close>

definition publish_with_retry ::
  "args \<Rightarrow> env \<Rightarrow> json \<Rightarrow> nat \<Rightarrow> json \<Rightarrow> json \<Rightarrow> json \<Rightarrow> json \<Rightarrow> bool io" where
  "publish_with_retry a env global_settings k machine_type topic payload publish_payload =
     bind_io (lift_io (py_get global_settings ''publish_timeout'' (JInt 30))) (\<lambda>publish_timeout.
     bind_io (lift_io (py_get global_settings ''retry_attempts'' (JInt 3))) (\<lambda>retry_attempts.
     bind_io (lift_io (py_get global_settings ''retry_delay'' (JInt 1))) (\<lambda>retry_delay.
     bind_io (lift_io (py_range retry_attempts)) (\<lambda>attempts.
     bind_io (for_break (attempt_publish a env k machine_type topic payload publish_payload
                           publish_timeout retry_attempts retry_delay) attempts) (\<lambda>published.
     bind_io (emit_if (\<not> published) (Stderr (FailedToPublish machine_type retry_attempts))) (\<lambda>u.
     ([], Inr published)))))))"

text \<open>
  The body of the loop over the machines (lines 247 to 297), for job \<open>k\<close> (counted from
  0). It returns whether \<open>successful_publications\<close> is incremented.
\<close>

definition process_machine :: "args \<Rightarrow> env \<Rightarrow> json \<Rightarrow> nat \<Rightarrow> nat \<Rightarrow> json \<Rightarrow> bool io" where
  "process_machine a env global_settings total_machines k machine_config =
     bind_io (lift_io (py_getitem machine_config ''type'')) (\<lambda>machine_type.
     bind_io (lift_io (py_getitem machine_config ''topic'')) (\<lambda>topic.
     bind_io (emit_if (verbose a) (Stdout (Processing (Suc k) total_machines machine_type))) (\<lambda>u.
     bind_io (generate_machine_payload (generator env k) machine_type) (\<lambda>payload.
     if payload = JNull
     then bind_io (emit (Stderr (FailedToGenerate machine_type))) (\<lambda>u. ([], Inr False))
     else
       bind_io (lift_io (publish_payload_for topic payload)) (\<lambda>publish_payload.
       if dry_run a then
         bind_io (lift_io (asset_id_of payload)) (\<lambda>asset_id.
         bind_io (lift_io (py_endswith topic wrapper_key)) (\<lambda>stripped.
         bind_io (emit (Stdout (WouldPublish machine_type asset_id topic stripped))) (\<lambda>u.
         ([], Inr True))))
       else publish_with_retry a env global_settings k machine_type topic payload
              publish_payload)))))"

text \<open>The loop over the machines, with the number of the job and the counter
  \<open>successful_publications\<close>.\<close>

fun job_loop :: "(nat \<Rightarrow> json \<Rightarrow> bool io) \<Rightarrow> nat \<Rightarrow> json list \<Rightarrow> nat \<Rightarrow> nat io" where
  "job_loop body k [] successful = ([], Inr successful)"
| "job_loop body k (machine_config # rest) successful =
     (case body k machine_config of
        (tr, Inl e) \<Rightarrow> (tr, Inl e)
      | (tr, Inr ok) \<Rightarrow>
          (case job_loop body (Suc k) rest (if ok then Suc successful else successful) of
             (tr', r) \<Rightarrow> (tr @ tr', r)))"

text \<open>The body of the \<open>try\<close> of \<open>main\<close> (lines 242 to 317).\<close>

definition run_jobs :: "args \<Rightarrow> env \<Rightarrow> json \<Rightarrow> json \<Rightarrow> unit io" where
  "run_jobs a env config global_settings =
     bind_io (lift_io (py_getitem config ''machines'')) (\<lambda>machines.
     bind_io (lift_io (py_len machines)) (\<lambda>total_machines.
     bind_io (lift_io (py_iter machines)) (\<lambda>entries.
     bind_io (job_loop (process_machine a env global_settings total_machines) 0 entries 0)
       (\<lambda>successful.
     bind_io (emit_if (verbose a)
                (Stdout (Summary (dry_run a) total_machines successful
                           (int total_machines - int successful)))) (\<lambda>u.
     if successful = 0
     then bind_io (emit (Stderr (NoPayloads (dry_run a)))) (\<lambda>u. ([], Inl (SystemExit 1)))
     else if successful < total_machines
     then bind_io (emit (Stderr (OnlySome (dry_run a) successful total_machines)))
            (\<lambda>u. ([], Inl (SystemExit 1)))
     else emit_if (verbose a) (Stdout (AllSucceeded (dry_run a))))))))"

text \<open>
  \<open>main\<close>. The publisher is \<open>None\<close> in a dry run; \<open>sys.exit(1)\<close> after a failed
  \<open>connect\<close> stands before the \<open>try\<close>.
\<close>

definition main :: "args \<Rightarrow> env \<Rightarrow> unit io" where
  "main a env =
     bind_io (emit_if (verbose a) (Stdout LoadingConfiguration)) (\<lambda>u.
     bind_io (load_config (opened_config env)) (\<lambda>config.
     bind_io (lift_io (py_get config ''global_settings'' (JObj []))) (\<lambda>global_settings.
     bind_io (if \<not> dry_run a then
                bind_io (emit_if (verbose a) (Stdout ConnectingToBroker)) (\<lambda>u.
                bind_io (emit Connect) (\<lambda>u.
                if \<not> connect_result env
                then bind_io (emit (Stderr FailedToConnect)) (\<lambda>u. ([], Inl (SystemExit 1)))
                else ([], Inr True)))
              else ([], Inr False)) (\<lambda>publisher.
     try_finally (run_jobs a env config global_settings)
       (if publisher then [Disconnect] else [])))))"

text \<open>The exit status of the process: 0 after a return, the argument of \<open>sys.exit\<close>,
  1 after an exception nobody caught.\<close>

fun exit_code :: "py_exn + unit \<Rightarrow> int" where
  "exit_code (Inr u) = 0"
| "exit_code (Inl (SystemExit n)) = n"
| "exit_code (Inl e) = 1"

section \<open>Vocabulary of the statements\<close>

text \<open>
  The events that the processing of the jobs can produce: everything but the calls of
  \<open>connect\<close> and \<open>disconnect\<close>.
\<close>

fun job_event :: "event \<Rightarrow> bool" where
  "job_event Connect = False"
| "job_event Disconnect = False"
| "job_event ev = True"

text \<open>What \<open>load_config\<close> checks of an entry of \<open>machines\<close>.\<close>

definition valid_entry :: "json \<Rightarrow> bool" where
  "valid_entry machine \<longleftrightarrow>
     is_dict machine \<and> py_contains ''type'' machine = Inr True
     \<and> py_contains ''topic'' machine = Inr True"

text \<open>
  A configuration with two jobs, a generated payload, and a world in which the
  configuration loads, the broker accepts the connection, the generator succeeds and
  every publication fails once and then succeeds.
\<close>

definition sample_config :: json where
  "sample_config =
     JObj [(''mqtt_broker'', JObj [(''host'', JStr ''localhost''), (''port'', JInt 1883)]),
           (''machines'',
              JArr [JObj [(''type'', JStr ''press''),
                          (''topic'', JStr ''plant/press/MachineIdentificationType'')],
                    JObj [(''type'', JStr ''pump''), (''topic'', JStr ''plant/pump'')]])]"

definition sample_payload :: json where
  "sample_payload =
     JObj [(''MachineIdentificationType'', JObj [(''AssetId'', JStr ''PRESS-1234'')])]"

definition sample_env :: env where
  "sample_env =
     \<lparr>opened_config = Inr sample_config, connect_result = True,
      generator = (\<lambda>k. Inr sample_payload),
      publish_result = (\<lambda>k n. 1 \<le> n),
      sleep_raises = (\<lambda>d. None)\<rparr>"

text \<open>
  Configurations for the corner cases of \<open>load_config\<close>: no machines at all, and a
  broker section that is \<open>null\<close>, an array or a string instead of an object.
\<close>

definition empty_machines_config :: json where
  "empty_machines_config =
     JObj [(''mqtt_broker'', JObj [(''host'', JStr ''localhost''), (''port'', JInt 1883)]),
           (''machines'', JArr [])]"

definition null_broker_config :: json where
  "null_broker_config = JObj [(''mqtt_broker'', JNull), (''machines'', JArr [])]"

definition array_broker_config :: json where
  "array_broker_config =
     JObj [(''mqtt_broker'', JArr [JStr ''host'', JStr ''port'']), (''machines'', JArr [])]"

definition string_broker_config :: json where
  "string_broker_config = JObj [(''mqtt_broker'', JStr ''host port''), (''machines'', JArr [])]"

text \<open>
  A configuration object that lacks something \<open>load_config\<close> requires: the broker
  section, \<open>host\<close> or \<open>port\<close> in it, \<open>machines\<close>, a list under \<open>machines\<close>, or
  \<open>type\<close> or \<open>topic\<close> in an entry. \<open>has_key\<close> is false of everything but an object
  with the key.
\<close>

fun has_key :: "string \<Rightarrow> json \<Rightarrow> bool" where
  "has_key k (JObj kvs) = (map_of kvs k \<noteq> None)"
| "has_key k v = False"

definition defective :: "(string \<times> json) list \<Rightarrow> bool" where
  "defective kvs =
     (case map_of kvs ''mqtt_broker'' of
        None \<Rightarrow> True
      | Some broker \<Rightarrow>
          \<not> has_key ''host'' broker \<or> \<not> has_key ''port'' broker
          \<or> (case map_of kvs ''machines'' of
                None \<Rightarrow> True
              | Some (JArr ms) \<Rightarrow> \<not> list_all (\<lambda>m. has_key ''type'' m \<and> has_key ''topic'' m) ms
              | Some v \<Rightarrow> True))"



fun generated :: "event list \<Rightarrow> json list" where
  "generated [] = []"
| "generated (Generate machine_type # tr) = machine_type # generated tr"
| "generated (ev # tr) = generated tr"

definition summary_lines :: "args \<Rightarrow> nat \<Rightarrow> nat \<Rightarrow> event list" where
  "summary_lines a tot n =
     (if verbose a then [Stdout (Summary (dry_run a) tot n (int tot - int n))] else [])"

definition verdict_lines :: "args \<Rightarrow> nat \<Rightarrow> nat \<Rightarrow> event list" where
  "verdict_lines a tot n =
     (if n = 0 then [Stderr (NoPayloads (dry_run a))]
      else if n < tot then [Stderr (OnlySome (dry_run a) n tot)]
      else if verbose a then [Stdout (AllSucceeded (dry_run a))] else [])"






text \<open>The machines of the sample configuration, and a world in which the generator
  fails for the first job.\<close>

definition sample_machines :: "json list" where
  "sample_machines =
     [JObj [(''type'', JStr ''press''),
            (''topic'', JStr ''plant/press/MachineIdentificationType'')],
      JObj [(''type'', JStr ''pump''), (''topic'', JStr ''plant/pump'')]]"

definition failing_generator_env :: env where
  "failing_generator_env =
     sample_env\<lparr>generator := (\<lambda>k. if k = 0 then Inl CalledProcessError else Inr sample_payload)\<rparr>"

text \<open>A world in which the generator cannot be started: \<open>subprocess.run\<close> raises an
  \<open>OSError\<close>, which nothing in the loop catches.\<close>

definition crashing_generator_env :: env where
  "crashing_generator_env = sample_env\<lparr>generator := (\<lambda>k. Inl OSError)\<rparr>"

text \<open>
  The calls of \<open>publish\<close> and \<open>sleep\<close> in a trace, the number of calls of \<open>publish\<close>,
  and the payloads that were handed to \<open>publish\<close>.
\<close>

fun broker_calls :: "event list \<Rightarrow> event list" where
  "broker_calls [] = []"
| "broker_calls (Publish topic payload timeout # tr) = Publish topic payload timeout # broker_calls tr"
| "broker_calls (Sleep secs # tr) = Sleep secs # broker_calls tr"
| "broker_calls (ev # tr) = broker_calls tr"

fun publish_calls :: "event list \<Rightarrow> nat" where
  "publish_calls [] = 0"
| "publish_calls (Publish topic payload timeout # tr) = Suc (publish_calls tr)"
| "publish_calls (ev # tr) = publish_calls tr"

fun published_payloads :: "event list \<Rightarrow> json list" where
  "published_payloads [] = []"
| "published_payloads (Publish topic payload timeout # tr) = payload # published_payloads tr"
| "published_payloads (ev # tr) = published_payloads tr"

text \<open>
  \<open>n\<close> attempts with one sleep between consecutive attempts and none after the last:
  \<open>p, s, p, s, \<dots>, p\<close>.
\<close>

definition retry_pattern :: "event \<Rightarrow> event \<Rightarrow> nat \<Rightarrow> event list" where
  "retry_pattern p s n = (case n of 0 \<Rightarrow> [] | Suc m \<Rightarrow> concat (replicate m [p, s]) @ [p])"

text \<open>The line a retry prints with \<open>--verbose\<close> (line 280).\<close>

definition retry_line :: "args \<Rightarrow> nat \<Rightarrow> json \<Rightarrow> event list" where
  "retry_line a attempt retry_attempts =
     (if verbose a \<and> attempt > 0 then [Stdout (RetryAttempt (attempt + 1) retry_attempts)] else [])"

text \<open>
  Four brokers for \<open>publish\<close>: one that acknowledges at the third read, one that never
  acknowledges (the clock runs out after two sleeps), one that refuses the message with
  return code 4, and a session that is not connected.
\<close>

definition acked_env :: publish_env where
  "acked_env = \<lparr>connected_flag = True, client_publish = Inr (0, 7),
                 acked = (\<lambda>r. 3 \<le> r), in_time = (\<lambda>timeout k. Inr (k < 300))\<rparr>"

definition silent_env :: publish_env where
  "silent_env = \<lparr>connected_flag = True, client_publish = Inr (0, 8),
                  acked = (\<lambda>r. False), in_time = (\<lambda>timeout k. Inr (k < 2))\<rparr>"

definition refused_env :: publish_env where
  "refused_env = \<lparr>connected_flag = True, client_publish = Inr (4, 9),
                   acked = (\<lambda>r. False), in_time = (\<lambda>timeout k. Inr (k < 2))\<rparr>"

definition offline_env :: publish_env where
  "offline_env = \<lparr>connected_flag = False, client_publish = Inr (0, 10),
                   acked = (\<lambda>r. True), in_time = (\<lambda>timeout k. Inr (k < 2))\<rparr>"

section \<open>Properties of the dates\<close>

lemma randint_range:
  assumes "a \<le> b"
  shows "\<exists>r. randint a b raw = Inr r \<and> a \<le> r \<and> r \<le> b"
proof -
  from assms have pos: "0 < b - a + 1" by simp
  have "0 \<le> raw mod (b - a + 1)" using pos by (rule pos_mod_sign)
  moreover have "raw mod (b - a + 1) < b - a + 1" using pos by (rule pos_mod_bound)
  then have "raw mod (b - a + 1) \<le> b - a" by linarith
  ultimately show ?thesis using assms by (simp add: randint_def)
qed

lemma days_of_floor:
  assumes "0 \<le> td"
  shows "0 \<le> days_of td" and "timedelta_days (days_of td) \<le> td"
proof -
  show "0 \<le> days_of td"
    using assms by (simp add: days_of_def usec_per_day_def pos_imp_zdiv_nonneg_iff)
  have "td div usec_per_day * usec_per_day \<le> td"
    by (simp add: usec_per_day_def)
  then show "timedelta_days (days_of td) \<le> td"
    by (simp add: timedelta_days_def days_of_def)
qed

lemma timedelta_days_mono: "r \<le> s \<Longrightarrow> timedelta_days r \<le> timedelta_days s"
  by (simp add: timedelta_days_def usec_per_day_def)

lemma timedelta_days_nonneg: "0 \<le> r \<Longrightarrow> 0 \<le> timedelta_days r"
  by (simp add: timedelta_days_def usec_per_day_def)

lemma operation_date_from:
  assumes "earliest \<le> now"
  shows "\<exists>d. (case randint 0 (days_of (now - earliest)) raw of
                 Inl e \<Rightarrow> Inl e
               | Inr random_days \<Rightarrow> Inr (earliest + timedelta_days random_days)) = Inr d
             \<and> earliest \<le> d \<and> d \<le> now"
proof -
  from assms have td: "0 \<le> now - earliest" by simp
  from days_of_floor(1) [OF td] obtain r
    where r: "randint 0 (days_of (now - earliest)) raw = Inr r"
      and lo: "0 \<le> r" and hi: "r \<le> days_of (now - earliest)"
    using randint_range by blast
  from hi have "timedelta_days r \<le> timedelta_days (days_of (now - earliest))"
    by (rule timedelta_days_mono)
  also have "\<dots> \<le> now - earliest" by (rule days_of_floor(2) [OF td])
  finally have "earliest + timedelta_days r \<le> now" by simp
  moreover have "earliest \<le> earliest + timedelta_days r"
    using timedelta_days_nonneg [OF lo] by simp
  ultimately show ?thesis using r by simp
qed

lemma generate_operation_date_bounds:
  assumes "construction_date \<le> now"
  shows "\<exists>d. generate_operation_date now raw construction_date = Inr d
             \<and> construction_date \<le> d \<and> d \<le> now"
proof -
  define e0 where "e0 = max construction_date (now - timedelta_days (10 * 365))"
  define e1 where "e1 = (if e0 \<ge> now then construction_date else e0)"
  have "0 \<le> timedelta_days (10 * 365)" by (rule timedelta_days_nonneg) simp
  with assms have "e0 \<le> now" by (simp add: e0_def)
  with assms have le: "e1 \<le> now" by (simp add: e1_def)
  have ge: "construction_date \<le> e1" by (simp add: e1_def e0_def)
  from operation_date_from [OF le] obtain d
    where d: "(case randint 0 (days_of (now - e1)) raw of
                 Inl e \<Rightarrow> Inl e
               | Inr random_days \<Rightarrow> Inr (e1 + timedelta_days random_days)) = Inr d"
      and "e1 \<le> d" and "d \<le> now"
    by blast
  have "generate_operation_date now raw construction_date = Inr d"
    unfolding generate_operation_date_def Let_def e0_def [symmetric] e1_def [symmetric]
    by (rule d)
  with ge \<open>e1 \<le> d\<close> \<open>d \<le> now\<close> show ?thesis by auto
qed

text \<open>The construction date lies in the twenty years before the clock reading.\<close>

lemma generate_construction_date_bounds:
  "\<exists>c. generate_construction_date now raw = Inr c
       \<and> now - timedelta_days (20 * 365) \<le> c \<and> c \<le> now"
proof -
  have span: "days_of (now - (now - timedelta_days (20 * 365))) = 20 * 365"
    by (simp add: days_of_def timedelta_days_def usec_per_day_def)
  obtain r where r: "randint 0 (20 * 365) raw = Inr r" and lo: "0 \<le> r" and hi: "r \<le> 20 * 365"
    using randint_range [of 0 "20 * 365" raw] by auto
  from hi have "timedelta_days r \<le> timedelta_days (20 * 365)" by (rule timedelta_days_mono)
  moreover from lo have "0 \<le> timedelta_days r" by (rule timedelta_days_nonneg)
  ultimately show ?thesis
    using r span by (simp add: generate_construction_date_def Let_def)
qed

text \<open>
  The dates of a payload, when the clock does not run backwards between the three
  readings: operation date and software date lie between the construction date and
  their own clock reading.
\<close>

lemma generate_dates_ordered:
  assumes "now1 \<le> now2" and "now1 \<le> now3"
  shows "\<exists>ds. generate_dates now1 raw1 now2 raw2 now3 raw3 = Inr ds
           \<and> date_of_construction ds \<le> date_of_operation ds \<and> date_of_operation ds \<le> now2
           \<and> date_of_construction ds \<le> date_of_software ds \<and> date_of_software ds \<le> now3"
proof -
  from generate_construction_date_bounds [of now1 raw1] obtain c
    where c: "generate_construction_date now1 raw1 = Inr c" and "c \<le> now1" by blast
  with assms have c2: "c \<le> now2" and c3: "c \<le> now3" by simp_all
  from generate_operation_date_bounds [OF c2, of raw2] obtain d2
    where d2: "generate_operation_date now2 raw2 c = Inr d2" "c \<le> d2" "d2 \<le> now2" by blast
  from generate_operation_date_bounds [OF c3, of raw3] obtain d3
    where d3: "generate_operation_date now3 raw3 c = Inr d3" "c \<le> d3" "d3 \<le> now3" by blast
  from c d2 d3 show ?thesis by (simp add: generate_dates_def)
qed

text \<open>
  C10. Whenever the construction date is not after the clock reading,
  \<open>generate_operation_date\<close> returns a date (it does not raise), and that date is
  neither before the construction date nor after the clock reading, whatever the random
  draw.
\<close>

theorem generate_operation_date_between:
  assumes "construction_date \<le> now"
  shows "\<exists>d. generate_operation_date now raw construction_date = Inr d
             \<and> construction_date \<le> d \<and> d \<le> now"
  using assms by (rule generate_operation_date_bounds)

theorem generate_operation_date_between_witness:
  "(0::int) \<le> 1000000000000
   \<and> (\<exists>d. generate_operation_date 1000000000000 7 0 = Inr d \<and> 0 \<le> d \<and> d \<le> 1000000000000)"
  using generate_operation_date_between [of 0 1000000000000 7] by simp

section \<open>Sequencing and event classes\<close>

lemma bind_io_Inl [simp]: "bind_io (tr, Inl e) f = (tr, Inl e)"
  by (simp add: bind_io_def)

lemma bind_io_Inr [simp]: "bind_io (tr, Inr x) f = (tr @ fst (f x), snd (f x))"
  by (simp add: bind_io_def split: prod.splits)

lemma lift_io_simp [simp]: "lift_io r = ([], r)"
  by (simp add: lift_io_def)

lemma emit_simp [simp]: "emit ev = ([ev], Inr ())"
  by (simp add: emit_def)

lemma emit_if_simp [simp]: "emit_if b ev = ((if b then [ev] else []), Inr ())"
  by (simp add: emit_if_def)

lemma try_finally_simp [simp]: "try_finally m fin = (fst m @ fin, snd m)"
  by (simp add: try_finally_def split: prod.splits)

lemma fst_bind_io:
  "fst (bind_io m f) = fst m @ (case snd m of Inl e \<Rightarrow> [] | Inr x \<Rightarrow> fst (f x))"
  by (cases m; cases "snd m") auto

lemma snd_bind_io:
  "snd (bind_io m f) = (case snd m of Inl e \<Rightarrow> Inl e | Inr x \<Rightarrow> snd (f x))"
  by (cases m; cases "snd m") auto

lemma list_all_bind_io:
  assumes "list_all P (fst m)" and "\<And>x. list_all P (fst (f x))"
  shows "list_all P (fst (bind_io m f))"
  using assms by (cases m; cases "snd m") auto

lemma list_all_fst_if:
  assumes "c \<Longrightarrow> list_all P (fst x)" and "\<not> c \<Longrightarrow> list_all P (fst y)"
  shows "list_all P (fst (if c then x else y))"
  using assms by simp

lemma for_break_events:
  assumes "\<And>x. list_all P (fst (body x))"
  shows "list_all P (fst (for_break body xs))"
proof (induction xs)
  case Nil
  show ?case by simp
next
  case (Cons x xs)
  obtain tr r where b: "body x = (tr, r)" by (cases "body x")
  have tr: "list_all P tr" using assms [of x] b by simp
  show ?case
  proof (cases r)
    case (Inl e)
    with b tr show ?thesis by simp
  next
    case (Inr ok)
    obtain tr' r' where fb: "for_break body xs = (tr', r')" by (cases "for_break body xs")
    with Cons.IH have "list_all P tr'" by simp
    with b tr Inr fb show ?thesis by (cases ok) simp_all
  qed
qed

lemma job_loop_events:
  assumes "\<And>k m. list_all P (fst (body k m))"
  shows "list_all P (fst (job_loop body k ms s))"
proof (induction ms arbitrary: k s)
  case Nil
  show ?case by simp
next
  case (Cons m ms)
  obtain tr r where b: "body k m = (tr, r)" by (cases "body k m")
  have tr: "list_all P tr" using assms [of k m] b by simp
  show ?case
  proof (cases r)
    case (Inl e)
    with b tr show ?thesis by simp
  next
    case (Inr ok)
    obtain tr' r' where fb: "job_loop body (Suc k) ms (if ok then Suc s else s) = (tr', r')"
      by (cases "job_loop body (Suc k) ms (if ok then Suc s else s)")
    with Cons.IH [of "Suc k" "if ok then Suc s else s"] have "list_all P tr'" by simp
    with b tr Inr fb show ?thesis by simp
  qed
qed

lemma py_sleep_events: "list_all job_event (fst (py_sleep raises d))"
  by (simp add: py_sleep_def split: option.splits)

lemma generate_machine_payload_events:
  "list_all job_event (fst (generate_machine_payload outcome ty))"
  by (simp add: generate_machine_payload_def split: sum.splits)

lemma attempt_publish_events:
  "list_all job_event (fst (attempt_publish a env k ty topic payload pp to n d i))"
  unfolding attempt_publish_def
  by (intro list_all_bind_io list_all_fst_if py_sleep_events) simp_all

lemma publish_with_retry_events:
  "list_all job_event (fst (publish_with_retry a env gs k ty topic payload pp))"
  unfolding publish_with_retry_def
  by (intro list_all_bind_io for_break_events attempt_publish_events) simp_all

lemma process_machine_events:
  "list_all job_event (fst (process_machine a env gs tot k m))"
  unfolding process_machine_def
  by (intro list_all_bind_io list_all_fst_if generate_machine_payload_events
        publish_with_retry_events) simp_all


lemma run_jobs_events: "list_all job_event (fst (run_jobs a env config gs))"
  unfolding run_jobs_def
  by (intro list_all_bind_io list_all_fst_if job_loop_events process_machine_events) simp_all

lemma load_config_events: "list_all job_event (fst (load_config opened))"
  by (simp add: load_config_def split: sum.splits)

lemma job_event_not_Disconnect: "list_all job_event tr \<Longrightarrow> Disconnect \<notin> set tr"
  by (auto simp: list_all_iff)

lemma job_event_not_Connect: "list_all job_event tr \<Longrightarrow> Connect \<notin> set tr"
  by (auto simp: list_all_iff)

lemma load_config_ok_trace:
  "load_config opened = (tr, Inr config) \<Longrightarrow> tr = []"
  by (auto simp: load_config_def split: sum.splits if_splits)

section \<open>What load\_config accepts\<close>

lemma check_machines_ok:
  "check_machines i ms = Inr u \<Longrightarrow> list_all valid_entry ms"
  by (induction ms arbitrary: i) (auto simp: valid_entry_def split: if_splits sum.splits)

lemma check_broker_fields_ok:
  "check_broker_fields broker [''host'', ''port''] = Inr u \<Longrightarrow>
     py_contains ''host'' broker = Inr True \<and> py_contains ''port'' broker = Inr True"
  by (auto split: if_splits sum.splits)

lemma validate_ok:
  assumes "validate config = Inr c"
  shows "c = config \<and> (\<exists>kvs broker ms. config = JObj kvs
           \<and> map_of kvs ''mqtt_broker'' = Some broker
           \<and> py_contains ''host'' broker = Inr True \<and> py_contains ''port'' broker = Inr True
           \<and> map_of kvs ''machines'' = Some (JArr ms) \<and> list_all valid_entry ms)"
proof (cases config)
  case (JObj kvs)
  from assms obtain machines broker u1 u2
    where m: "map_of kvs ''machines'' = Some machines" and l: "is_list machines"
      and b: "map_of kvs ''mqtt_broker'' = Some broker"
      and cb: "check_broker_fields broker [''host'', ''port''] = Inr u1"
      and cm: "(case py_iter machines of Inl e \<Rightarrow> Inl e | Inr entries \<Rightarrow> check_machines 0 entries) = Inr u2"
      and c: "c = config"
    unfolding validate_def JObj
    by (auto split: if_splits sum.splits option.splits)
  from l obtain ms where ms: "machines = JArr ms" by (cases machines) auto
  with cm have "check_machines 0 ms = Inr u2" by simp
  then have "list_all valid_entry ms" by (rule check_machines_ok)
  with JObj m b c ms check_broker_fields_ok [OF cb] show ?thesis by simp
qed (use assms in \<open>auto simp: validate_def split: if_splits\<close>)

lemma load_config_accepted:
  assumes "load_config opened = (tr, Inr config)"
  shows "tr = [] \<and> opened = Inr config \<and> validate config = Inr config"
proof -
  from assms obtain c0 where o: "opened = Inr c0" and v: "validate c0 = Inr config"
    by (auto simp: load_config_def split: sum.splits if_splits)
  from validate_ok [OF v] have "config = c0" by simp
  with o v assms show ?thesis by (auto simp: load_config_def)
qed

section \<open>The shape of a run\<close>

text \<open>
  Once the configuration has loaded there are three kinds of run: a dry run, a live run
  after a successful \<open>connect\<close>, and a live run that ends at the failed \<open>connect\<close>.
\<close>

lemma main_trace_loaded:
  assumes "load_config (opened_config env) = (tr0, Inr config)"
  shows "\<exists>gs. py_get config ''global_settings'' (JObj []) = Inr gs \<and>
     main a env =
       (if dry_run a then
          ((if verbose a then [Stdout LoadingConfiguration] else []) @ fst (run_jobs a env config gs),
           snd (run_jobs a env config gs))
        else if connect_result env then
          ((if verbose a then [Stdout LoadingConfiguration, Stdout ConnectingToBroker] else [])
             @ [Connect] @ fst (run_jobs a env config gs) @ [Disconnect],
           snd (run_jobs a env config gs))
        else
          ((if verbose a then [Stdout LoadingConfiguration, Stdout ConnectingToBroker] else [])
             @ [Connect, Stderr FailedToConnect], Inl (SystemExit 1)))"
proof -
  from load_config_accepted [OF assms]
  have tr0: "tr0 = []" and v: "validate config = Inr config" by simp_all
  from validate_ok [OF v] obtain kvs where "config = JObj kvs" by blast
  then obtain gs where gs: "py_get config ''global_settings'' (JObj []) = Inr gs" by simp
  show ?thesis
    using assms tr0 gs by (intro exI [of _ gs]) (simp add: main_def)
qed

text \<open>A live run whose \<open>connect\<close> fails ends there, with exit status 1; no job is
  processed and \<open>disconnect\<close> is not called.\<close>

lemma main_connect_failed:
  assumes "load_config (opened_config env) = (tr0, Inr config)"
    and "\<not> dry_run a" and "\<not> connect_result env"
  shows "main a env =
           ((if verbose a then [Stdout LoadingConfiguration, Stdout ConnectingToBroker] else [])
              @ [Connect, Stderr FailedToConnect], Inl (SystemExit 1))"
  using main_trace_loaded [OF assms(1), of a] assms(2,3) by auto

section \<open>Cleanup: the call of disconnect\<close>

text \<open>
  C1 (as amended). In every live run in which the configuration loads and \<open>connect\<close>
  succeeds, \<open>MQTTPublisher.disconnect\<close> is called exactly once and is the last event of
  the run, whether the job loop returns, exits with status 1 or raises. In a dry run
  there is no publisher and \<open>disconnect\<close> is not called.
\<close>

theorem disconnect_once_after_connect:
  assumes "load_config (opened_config env) = (tr0, Inr config)"
  shows "(\<not> dry_run a \<and> connect_result env \<longrightarrow>
            (\<exists>tr. fst (main a env) = tr @ [Disconnect] \<and> Disconnect \<notin> set tr))
       \<and> (dry_run a \<longrightarrow> Disconnect \<notin> set (fst (main a env)))"
proof -
  from main_trace_loaded [OF assms, of a] obtain gs where
    m: "main a env =
       (if dry_run a then
          ((if verbose a then [Stdout LoadingConfiguration] else []) @ fst (run_jobs a env config gs),
           snd (run_jobs a env config gs))
        else if connect_result env then
          ((if verbose a then [Stdout LoadingConfiguration, Stdout ConnectingToBroker] else [])
             @ [Connect] @ fst (run_jobs a env config gs) @ [Disconnect],
           snd (run_jobs a env config gs))
        else
          ((if verbose a then [Stdout LoadingConfiguration, Stdout ConnectingToBroker] else [])
             @ [Connect, Stderr FailedToConnect], Inl (SystemExit 1)))"
    by blast
  have nd: "Disconnect \<notin> set (fst (run_jobs a env config gs))"
    by (rule job_event_not_Disconnect) (rule run_jobs_events)
  show ?thesis
  proof (intro conjI impI)
    assume "\<not> dry_run a \<and> connect_result env"
    with m have "fst (main a env) =
        ((if verbose a then [Stdout LoadingConfiguration, Stdout ConnectingToBroker] else [])
             @ [Connect] @ fst (run_jobs a env config gs)) @ [Disconnect]"
      by simp
    moreover have "Disconnect \<notin> set ((if verbose a then [Stdout LoadingConfiguration, Stdout ConnectingToBroker] else [])
             @ [Connect] @ fst (run_jobs a env config gs))"
      using nd by simp
    ultimately show "\<exists>tr. fst (main a env) = tr @ [Disconnect] \<and> Disconnect \<notin> set tr"
      by blast
  next
    assume "dry_run a"
    with m nd show "Disconnect \<notin> set (fst (main a env))" by simp
  qed
qed

text \<open>
  C1 as stated fails: the sample configuration loads, and the dry run over it never
  calls \<open>disconnect\<close>.
\<close>

theorem disconnect_in_dry_run_counterexample:
  "load_config (opened_config sample_env) = ([], Inr sample_config)
   \<and> count_list (fst (main \<lparr>verbose = False, dry_run = True\<rparr> sample_env)) Disconnect = 0"
  by code_simp

text \<open>
  The live run and the dry run over the sample configuration, and a live run whose job
  loop raises.
\<close>

theorem disconnect_once_after_connect_witness:
  "load_config (opened_config sample_env) = ([], Inr sample_config)
   \<and> (\<exists>tr. fst (main \<lparr>verbose = False, dry_run = False\<rparr> sample_env) = tr @ [Disconnect]
            \<and> Disconnect \<notin> set tr)
   \<and> Disconnect \<notin> set (fst (main \<lparr>verbose = False, dry_run = True\<rparr> sample_env))
   \<and> snd (main \<lparr>verbose = False, dry_run = False\<rparr> crashing_generator_env) = Inl OSError
   \<and> (\<exists>tr. fst (main \<lparr>verbose = False, dry_run = False\<rparr> crashing_generator_env)
              = tr @ [Disconnect]
            \<and> Disconnect \<notin> set tr)"
proof -
  let ?live = "\<lparr>verbose = False, dry_run = False\<rparr>"
  let ?dry = "\<lparr>verbose = False, dry_run = True\<rparr>"
  have l: "load_config (opened_config sample_env) = ([], Inr sample_config)"
    by code_simp
  have l': "load_config (opened_config crashing_generator_env) = ([], Inr sample_config)"
    by code_simp
  have c: "\<not> dry_run ?live \<and> connect_result sample_env" by code_simp
  have c': "\<not> dry_run ?live \<and> connect_result crashing_generator_env" by code_simp
  have d: "dry_run ?dry" by simp
  have r: "snd (main ?live crashing_generator_env) = Inl OSError" by code_simp
  from disconnect_once_after_connect [OF l, of ?live] c
  have "\<exists>tr. fst (main ?live sample_env) = tr @ [Disconnect] \<and> Disconnect \<notin> set tr"
    by blast
  moreover from disconnect_once_after_connect [OF l, of ?dry] d
  have "Disconnect \<notin> set (fst (main ?dry sample_env))"
    by blast
  moreover from disconnect_once_after_connect [OF l', of ?live] c'
  have "\<exists>tr. fst (main ?live crashing_generator_env) = tr @ [Disconnect]
             \<and> Disconnect \<notin> set tr"
    by blast
  ultimately show ?thesis using l r by blast
qed

section \<open>The invariant of an accepted configuration\<close>

text \<open>
  C6 (as amended). Every configuration that \<open>load_config\<close> accepts is an object with a
  broker section in which \<open>host\<close> and \<open>port\<close> are found and with a list of machines,
  possibly empty, whose every entry is an object with both \<open>type\<close> and \<open>topic\<close>.
\<close>

theorem load_config_accepted_shape:
  assumes "load_config opened = (tr, Inr config)"
  shows "\<exists>kvs broker ms. config = JObj kvs
           \<and> map_of kvs ''mqtt_broker'' = Some broker
           \<and> py_contains ''host'' broker = Inr True \<and> py_contains ''port'' broker = Inr True
           \<and> map_of kvs ''machines'' = Some (JArr ms) \<and> list_all valid_entry ms"
proof -
  from load_config_accepted [OF assms] have "validate config = Inr config" by simp
  from validate_ok [OF this] show ?thesis by simp
qed

text \<open>
  C6 as stated fails: \<open>load_config\<close> accepts a configuration whose \<open>machines\<close> array
  is empty.
\<close>

theorem empty_machines_accepted_counterexample:
  "py_getitem empty_machines_config ''machines'' = Inr (JArr [])
   \<and> load_config (Inr empty_machines_config) = ([], Inr empty_machines_config)"
  by code_simp

text \<open>The sample configuration is accepted and has the shape.\<close>

theorem load_config_accepted_shape_witness:
  "load_config (Inr sample_config) = ([], Inr sample_config)
   \<and> (\<exists>kvs broker ms. sample_config = JObj kvs
           \<and> map_of kvs ''mqtt_broker'' = Some broker
           \<and> py_contains ''host'' broker = Inr True \<and> py_contains ''port'' broker = Inr True
           \<and> map_of kvs ''machines'' = Some (JArr ms) \<and> list_all valid_entry ms)"
proof -
  have l: "load_config (Inr sample_config) = ([], Inr sample_config)" by code_simp
  from load_config_accepted_shape [OF l] l show ?thesis by blast
qed

section \<open>Rejected configurations\<close>

text \<open>
  C5. A configuration whose broker section is \<open>null\<close> has neither \<open>host\<close> nor
  \<open>port\<close>, yet \<open>load_config\<close> does not report an invalid configuration: the test
  \<open>'host' not in None\<close> raises \<open>TypeError\<close>, which none of the three handlers
  takes, so nothing is printed and the exception leaves \<open>load_config\<close>.
\<close>

theorem load_config_null_broker_raises:
  "load_config (Inr null_broker_config) = ([], Inl TypeError)"
  by code_simp

text \<open>
  A broker section that is a string is searched for substrings and one that is an array
  for elements, so the string \<open>host port\<close> and the array of \<open>host\<close> and \<open>port\<close>
  pass.
\<close>

lemma load_config_array_broker_accepted:
  "load_config (Inr array_broker_config) = ([], Inr array_broker_config)"
  by code_simp

lemma load_config_string_broker_accepted:
  "load_config (Inr string_broker_config) = ([], Inr string_broker_config)"
  by code_simp

text \<open>
  Where the broker section is an object or is absent, every defective configuration
  object is reported as invalid, with exit status 1.
\<close>

lemma has_key_contains: "is_dict v \<Longrightarrow> py_contains k v = Inr (has_key k v)"
  by (cases v) auto

lemma check_machines_defective:
  assumes "\<not> list_all (\<lambda>m. has_key ''type'' m \<and> has_key ''topic'' m) ms"
  shows "\<exists>p. check_machines i ms = Inl (ConfigValueError p)"
  using assms
proof (induction ms arbitrary: i)
  case Nil
  then show ?case by simp
next
  case (Cons m ms)
  show ?case
  proof (cases "is_dict m")
    case False
    then show ?thesis by simp
  next
    case True
    note d = has_key_contains [OF True]
    show ?thesis
    proof (cases "has_key ''type'' m \<and> has_key ''topic'' m")
      case True
      with Cons.prems have "\<not> list_all (\<lambda>m. has_key ''type'' m \<and> has_key ''topic'' m) ms"
        by simp
      from Cons.IH [OF this, of "Suc i"] True \<open>is_dict m\<close> d show ?thesis by simp
    next
      case False
      with \<open>is_dict m\<close> d show ?thesis by auto
    qed
  qed
qed

lemma validate_defective:
  assumes obj: "\<forall>b. map_of kvs ''mqtt_broker'' = Some b \<longrightarrow> is_dict b"
    and bad: "defective kvs"
  shows "\<exists>p. validate (JObj kvs) = Inl (ConfigValueError p)"
proof (cases "map_of kvs ''mqtt_broker''")
  case None
  then show ?thesis by (simp add: validate_def)
next
  case (Some broker)
  with obj have db: "is_dict broker" by simp
  note hb = has_key_contains [OF db]
  show ?thesis
  proof (cases "map_of kvs ''machines''")
    case None
    with Some show ?thesis by (simp add: validate_def)
  next
    case ms: (Some machines)
    show ?thesis
    proof (cases "is_list machines")
      case False
      with Some ms show ?thesis by (simp add: validate_def)
    next
      case True
      then obtain xs where xs: "machines = JArr xs" by (cases machines) auto
      show ?thesis
      proof (cases "has_key ''host'' broker \<and> has_key ''port'' broker")
        case False
        with Some ms xs hb show ?thesis by (auto simp: validate_def)
      next
        case hp: True
        with bad Some ms xs
        have "\<not> list_all (\<lambda>m. has_key ''type'' m \<and> has_key ''topic'' m) xs"
          by (simp add: defective_def)
        from check_machines_defective [OF this, of 0] obtain p
          where "check_machines 0 xs = Inl (ConfigValueError p)" by blast
        with Some ms xs hb hp show ?thesis by (simp add: validate_def)
      qed
    qed
  qed
qed

lemma load_config_defective:
  assumes "\<forall>b. map_of kvs ''mqtt_broker'' = Some b \<longrightarrow> is_dict b" and "defective kvs"
  shows "\<exists>p. load_config (Inr (JObj kvs)) =
           ([Stderr (ConfigInvalid (ConfigValueError p))], Inl (SystemExit 1))"
proof -
  from validate_defective [OF assms] obtain p
    where "validate (JObj kvs) = Inl (ConfigValueError p)" by blast
  then show ?thesis by (simp add: load_config_def)
qed

text \<open>
  When \<open>load_config\<close> fails, in whatever way, the run ends there: it has printed at
  most, and neither \<open>connect\<close> nor a generator nor \<open>publish\<close> has been called.
\<close>

lemma main_load_failed:
  assumes "load_config (opened_config env) = (tr, Inl e)"
  shows "main a env = ((if verbose a then [Stdout LoadingConfiguration] else []) @ tr, Inl e)"
  using assms by (simp add: main_def)

lemma load_failed_no_broker_activity:
  assumes "load_config (opened_config env) = (tr, Inl e)"
  shows "list_all (\<lambda>ev. \<exists>m. ev = Stdout m \<or> ev = Stderr m) (fst (main a env))"
proof -
  from assms have "list_all (\<lambda>ev. \<exists>m. ev = Stdout m \<or> ev = Stderr m) tr"
    by (auto simp: load_config_def split: sum.splits if_splits)
  with main_load_failed [OF assms, of a] show ?thesis by simp
qed

section \<open>The loop over the machines\<close>

lemma valid_entry_fields:
  assumes "valid_entry m"
  obtains ty topic where "py_getitem m ''type'' = Inr ty" and "py_getitem m ''topic'' = Inr topic"
  using assms by (cases m) (auto simp: valid_entry_def)


lemma job_loop_bounds:
  assumes "job_loop body k ms s = (tr, Inr n)"
  shows "s \<le> n \<and> n \<le> s + length ms"
  using assms
proof (induction ms arbitrary: k s tr)
  case Nil
  then show ?case by simp
next
  case (Cons m ms)
  obtain tr1 r1 where b: "body k m = (tr1, r1)" by (cases "body k m")
  with Cons.prems obtain ok where r1: "r1 = Inr ok" by (cases r1) auto
  obtain tr2 r2 where l: "job_loop body (Suc k) ms (if ok then Suc s else s) = (tr2, r2)"
    by (cases "job_loop body (Suc k) ms (if ok then Suc s else s)")
  with Cons.prems b r1 have "r2 = Inr n" by simp
  with l Cons.IH have "(if ok then Suc s else s) \<le> n \<and> n \<le> (if ok then Suc s else s) + length ms"
    by blast
  then show ?case by (simp split: if_splits)
qed

lemma run_jobs_completed:
  assumes "py_getitem config ''machines'' = Inr (JArr ms)"
    and "job_loop (process_machine a env gs (length ms)) 0 ms 0 = (tr, Inr n)"
  shows "run_jobs a env config gs =
           (tr @ summary_lines a (length ms) n @ verdict_lines a (length ms) n,
            if n = 0 \<or> n < length ms then Inl (SystemExit 1) else Inr ())"
  using assms by (simp add: run_jobs_def summary_lines_def verdict_lines_def)

lemma run_jobs_raised:
  assumes "py_getitem config ''machines'' = Inr (JArr ms)"
    and "job_loop (process_machine a env gs (length ms)) 0 ms 0 = (tr, Inl e)"
  shows "run_jobs a env config gs = (tr, Inl e)"
  using assms by (simp add: run_jobs_def)

text \<open>Every job runs the generator once, so a loop that returns has run it for every
  machine, in the order of the configuration.\<close>

lemma generated_append [simp]: "generated (xs @ ys) = generated xs @ generated ys"
  by (induction xs rule: generated.induct) simp_all

lemma generated_for_break:
  assumes "\<And>x. generated (fst (body x)) = []"
  shows "generated (fst (for_break body xs)) = []"
proof (induction xs)
  case Nil
  show ?case by simp
next
  case (Cons x xs)
  obtain tr r where b: "body x = (tr, r)" by (cases "body x")
  with assms [of x] have g: "generated tr = []" by simp
  show ?case
  proof (cases r)
    case (Inl e)
    with b g show ?thesis by simp
  next
    case (Inr ok)
    with b g Cons.IH show ?thesis by (cases ok) (auto split: prod.splits)
  qed
qed

lemma generated_bind_io:
  assumes "generated (fst m) = []" and "\<And>x. generated (fst (f x)) = []"
  shows "generated (fst (bind_io m f)) = []"
  using assms by (cases m; cases "snd m") auto

lemma generated_fst_if:
  assumes "c \<Longrightarrow> generated (fst x) = []" and "\<not> c \<Longrightarrow> generated (fst y) = []"
  shows "generated (fst (if c then x else y)) = []"
  using assms by simp

lemma generated_py_sleep: "generated (fst (py_sleep raises d)) = []"
  by (simp add: py_sleep_def split: option.splits)

lemma generated_attempt_publish:
  "generated (fst (attempt_publish a env k ty topic payload pp to n d i)) = []"
  unfolding attempt_publish_def
  by (intro generated_bind_io generated_fst_if generated_py_sleep) simp_all

lemma generated_publish_with_retry:
  "generated (fst (publish_with_retry a env gs k ty topic payload pp)) = []"
  unfolding publish_with_retry_def
  by (intro generated_bind_io generated_for_break generated_attempt_publish) simp_all

lemma generated_process_machine:
  assumes "py_getitem m ''type'' = Inr ty" and "py_getitem m ''topic'' = Inr topic"
  shows "generated (fst (process_machine a env gs tot k m)) = [ty]"
proof -
  have rest: "generated (fst (
       if payload = JNull
       then bind_io (emit (Stderr (FailedToGenerate ty))) (\<lambda>u. ([], Inr False))
       else
         bind_io (lift_io (publish_payload_for topic payload)) (\<lambda>publish_payload.
         if dry_run a then
           bind_io (lift_io (asset_id_of payload)) (\<lambda>asset_id.
           bind_io (lift_io (py_endswith topic wrapper_key)) (\<lambda>stripped.
           bind_io (emit (Stdout (WouldPublish ty asset_id topic stripped))) (\<lambda>u.
           ([], Inr True))))
         else publish_with_retry a env gs k ty topic payload publish_payload))) = []"
    for payload
    by (intro generated_bind_io generated_fst_if generated_publish_with_retry) simp_all
  show ?thesis
    using assms rest
    by (cases "generator env k")
       (auto simp: process_machine_def generate_machine_payload_def fst_bind_io
             split: sum.splits)
qed

lemma job_loop_completed_generated:
  assumes "job_loop (process_machine a env gs tot) k ms s = (tr, Inr n)"
    and "list_all valid_entry ms"
  shows "map (\<lambda>m. py_getitem m ''type'') ms = map Inr (generated tr)"
  using assms
proof (induction ms arbitrary: k s tr)
  case Nil
  then show ?case by simp
next
  case (Cons m ms)
  from Cons.prems(2) have vm: "valid_entry m" and vms: "list_all valid_entry ms" by simp_all
  from vm obtain ty topic where ty: "py_getitem m ''type'' = Inr ty"
    and tp: "py_getitem m ''topic'' = Inr topic" by (rule valid_entry_fields)
  obtain tr1 r1 where p: "process_machine a env gs tot k m = (tr1, r1)"
    by (cases "process_machine a env gs tot k m")
  from generated_process_machine [OF ty tp, of a env gs tot k] p
  have g1: "generated tr1 = [ty]" by simp
  from Cons.prems(1) p obtain ok where r1: "r1 = Inr ok"
    by (cases r1) auto
  obtain tr2 r2 where l: "job_loop (process_machine a env gs tot) (Suc k) ms
       (if ok then Suc s else s) = (tr2, r2)"
    by (cases "job_loop (process_machine a env gs tot) (Suc k) ms (if ok then Suc s else s)")
  from Cons.prems(1) p r1 l have tr: "tr = tr1 @ tr2" and r2: "r2 = Inr n" by simp_all
  from Cons.IH [OF l [unfolded r2] vms]
  have "map (\<lambda>m. py_getitem m ''type'') ms = map Inr (generated tr2)" .
  with tr g1 ty show ?case by simp
qed

section \<open>Failed payload generation\<close>




section \<open>The exit status\<close>

text \<open>
  C4. When the configuration has loaded, the connection (if any) is up and the loop over
  the machines has returned with \<open>successful\<close> jobs counted, the exit status is 1 if no
  job or only some jobs succeeded and 0 otherwise, that is, 0 exactly when there is a
  job and every job succeeded. The events of the loop stay in the run whatever the
  status: nothing is taken back.
\<close>

theorem exit_code_of_completed_run:
  assumes load: "load_config (opened_config env) = (tr0, Inr config)"
    and conn: "dry_run a \<or> connect_result env"
    and ms: "py_getitem config ''machines'' = Inr (JArr ms)"
    and gs: "py_get config ''global_settings'' (JObj []) = Inr gs"
    and loop: "job_loop (process_machine a env gs (length ms)) 0 ms 0 = (tr, Inr successful)"
  shows "exit_code (snd (main a env)) = (if successful = 0 \<or> successful < length ms then 1 else 0)
       \<and> (exit_code (snd (main a env)) = 0 \<longleftrightarrow> ms \<noteq> [] \<and> successful = length ms)
       \<and> successful \<le> length ms
       \<and> (\<exists>pre post. fst (main a env) = pre @ tr @ post)"
proof -
  from job_loop_bounds [OF loop] have le: "successful \<le> length ms" by simp
  note rj = run_jobs_completed [OF ms loop]
  from main_trace_loaded [OF load, of a] gs
  have m: "main a env =
       (if dry_run a then
          ((if verbose a then [Stdout LoadingConfiguration] else []) @ fst (run_jobs a env config gs),
           snd (run_jobs a env config gs))
        else if connect_result env then
          ((if verbose a then [Stdout LoadingConfiguration, Stdout ConnectingToBroker] else [])
             @ [Connect] @ fst (run_jobs a env config gs) @ [Disconnect],
           snd (run_jobs a env config gs))
        else
          ((if verbose a then [Stdout LoadingConfiguration, Stdout ConnectingToBroker] else [])
             @ [Connect, Stderr FailedToConnect], Inl (SystemExit 1)))"
    by auto
  from m conn rj have s: "snd (main a env) =
      (if successful = 0 \<or> successful < length ms then Inl (SystemExit 1) else Inr ())"
    by auto
  then have e: "exit_code (snd (main a env)) =
      (if successful = 0 \<or> successful < length ms then 1 else 0)"
    by simp
  have t: "\<exists>pre post. fst (main a env) = pre @ tr @ post"
  proof (cases "dry_run a")
    case True
    with m rj have "fst (main a env) =
        (if verbose a then [Stdout LoadingConfiguration] else []) @ tr
          @ (summary_lines a (length ms) successful @ verdict_lines a (length ms) successful)"
      by simp
    then show ?thesis by blast
  next
    case False
    with conn m rj have "fst (main a env) =
        ((if verbose a then [Stdout LoadingConfiguration, Stdout ConnectingToBroker] else [])
           @ [Connect]) @ tr
          @ (summary_lines a (length ms) successful @ verdict_lines a (length ms) successful
             @ [Disconnect])"
      by simp
    then show ?thesis by blast
  qed
  from e le t show ?thesis by auto
qed

text \<open>Two live runs over the sample configuration: all jobs succeed; the first fails.\<close>

theorem exit_code_of_completed_run_witness:
  "load_config (opened_config sample_env) = ([], Inr sample_config)
   \<and> snd (job_loop (process_machine \<lparr>verbose = False, dry_run = False\<rparr> sample_env (JObj []) 2)
            0 sample_machines 0) = Inr 2
   \<and> exit_code (snd (main \<lparr>verbose = False, dry_run = False\<rparr> sample_env)) = 0
   \<and> snd (job_loop (process_machine \<lparr>verbose = False, dry_run = False\<rparr> failing_generator_env
            (JObj []) 2) 0 sample_machines 0) = Inr 1
   \<and> exit_code (snd (main \<lparr>verbose = False, dry_run = False\<rparr> failing_generator_env)) = 1"
proof -
  let ?a = "\<lparr>verbose = False, dry_run = False\<rparr>"
  have l1: "load_config (opened_config sample_env) = ([], Inr sample_config)" by code_simp
  have l2: "load_config (opened_config failing_generator_env) = ([], Inr sample_config)"
    by code_simp
  have c1: "dry_run ?a \<or> connect_result sample_env" by code_simp
  have c2: "dry_run ?a \<or> connect_result failing_generator_env" by code_simp
  have ms: "py_getitem sample_config ''machines'' = Inr (JArr sample_machines)" by code_simp
  have gs: "py_get sample_config ''global_settings'' (JObj []) = Inr (JObj [])" by code_simp
  have len: "length sample_machines = 2" by code_simp
  have s1: "snd (job_loop (process_machine ?a sample_env (JObj []) 2) 0 sample_machines 0) = Inr 2"
    by code_simp
  have s2: "snd (job_loop (process_machine ?a failing_generator_env (JObj []) 2)
                  0 sample_machines 0) = Inr 1"
    by code_simp
  from s1 have j1: "job_loop (process_machine ?a sample_env (JObj []) (length sample_machines))
       0 sample_machines 0 =
       (fst (job_loop (process_machine ?a sample_env (JObj []) 2) 0 sample_machines 0), Inr 2)"
    unfolding len by (simp add: prod_eq_iff)
  from s2 have j2: "job_loop (process_machine ?a failing_generator_env (JObj [])
       (length sample_machines)) 0 sample_machines 0 =
       (fst (job_loop (process_machine ?a failing_generator_env (JObj []) 2) 0 sample_machines 0),
        Inr 1)"
    unfolding len by (simp add: prod_eq_iff)
  from exit_code_of_completed_run [OF l1 c1 ms gs j1] len
  have e1: "exit_code (snd (main ?a sample_env)) = 0" by simp
  from exit_code_of_completed_run [OF l2 c2 ms gs j2] len
  have e2: "exit_code (snd (main ?a failing_generator_env)) = 1" by simp
  from l1 s1 e1 s2 e2 show ?thesis by simp
qed

section \<open>Dry runs\<close>














section \<open>The retry loop\<close>

lemma broker_calls_append [simp]: "broker_calls (xs @ ys) = broker_calls xs @ broker_calls ys"
  by (induction xs rule: broker_calls.induct) simp_all

lemma publish_calls_append [simp]: "publish_calls (xs @ ys) = publish_calls xs + publish_calls ys"
  by (induction xs rule: publish_calls.induct) simp_all

lemma broker_calls_retry_line [simp]: "broker_calls (retry_line a i ra) = []"
  by (simp add: retry_line_def)

lemma publish_calls_broker_calls: "publish_calls (broker_calls tr) = publish_calls tr"
  by (induction tr rule: broker_calls.induct) simp_all

lemma publish_calls_replicate:
  "publish_calls (concat (replicate m [Publish topic pp to, Sleep d])) = m"
  by (induction m) simp_all

lemma publish_calls_retry_pattern:
  "publish_calls (retry_pattern (Publish topic pp to) (Sleep d) n) = n"
  by (cases n) (simp_all add: retry_pattern_def publish_calls_replicate)

lemma retry_pattern_Suc:
  "retry_pattern p s (Suc N) = concat (replicate N [p, s]) @ [p]"
  by (simp add: retry_pattern_def)

lemma upt_split_at:
  assumes "N < m"
  shows "[0..<m] = [0..<N] @ N # [Suc N..<m]"
proof -
  from assms obtain c where m: "m = N + c" using less_imp_add_positive by blast
  have "[0..<N + c] = [0..<N] @ [N..<N + c]" by (rule upt_add_eq_append) simp
  moreover have "[N..<m] = N # [Suc N..<m]" using assms by (rule upt_conv_Cons)
  ultimately show ?thesis using m by simp
qed

text \<open>One attempt: a failed one sleeps unless it is the last, a successful one reports
  and breaks.\<close>

lemma attempt_publish_failed:
  assumes "\<not> publish_result env k i" and "sleep_raises env d = None"
  shows "attempt_publish a env k ty topic payload pp to (JInt n) d i =
           (retry_line a i (JInt n) @ [Publish topic pp to]
              @ (if int i < n - 1 then [Sleep d] else []), Inr False)"
  using assms by (simp add: attempt_publish_def retry_line_def py_sleep_def)

lemma attempt_publish_succeeded:
  assumes "publish_result env k i" and "asset_id_of payload = Inr asset_id"
  shows "attempt_publish a env k ty (JStr t) payload pp to ra d i =
           (retry_line a i ra @ [Publish (JStr t) pp to,
              Stdout (if verbose a
                      then PublishedVerbose ty asset_id (JStr t) (suffix wrapper_key t)
                      else Published ty (JStr t))], Inr True)"
  using assms by (simp add: attempt_publish_def retry_line_def)

text \<open>The loop: it runs through the failures up to the first success or to the end.\<close>

lemma for_break_append_failed:
  assumes "\<forall>x\<in>set xs. snd (body x) = Inr False"
  shows "for_break body (xs @ ys) =
           (concat (map (\<lambda>x. fst (body x)) xs) @ fst (for_break body ys),
            snd (for_break body ys))"
  using assms
proof (induction xs)
  case Nil
  show ?case by simp
next
  case (Cons x xs)
  then have "snd (body x) = Inr False" by simp
  then obtain tr where b: "body x = (tr, Inr False)" by (cases "body x") simp
  from Cons have "for_break body (xs @ ys) =
           (concat (map (\<lambda>x. fst (body x)) xs) @ fst (for_break body ys),
            snd (for_break body ys))"
    by simp
  with b show ?case by simp
qed

lemma for_break_all_failed:
  assumes "\<forall>x\<in>set xs. snd (body x) = Inr False"
  shows "for_break body xs = (concat (map (\<lambda>x. fst (body x)) xs), Inr False)"
  using for_break_append_failed [OF assms, of "[]"] by simp

lemma for_break_first_success:
  assumes "\<forall>x\<in>set xs. snd (body x) = Inr False" and "snd (body y) = Inr True"
  shows "for_break body (xs @ y # ys) =
           (concat (map (\<lambda>x. fst (body x)) xs) @ fst (body y), Inr True)"
proof -
  from assms(2) obtain tr where "body y = (tr, Inr True)" by (cases "body y") simp
  then have "for_break body (y # ys) = (fst (body y), Inr True)" by simp
  with for_break_append_failed [OF assms(1), of "y # ys"] show ?thesis by simp
qed

lemma broker_calls_concat_sleeping:
  assumes "\<And>i. i \<in> set xs \<Longrightarrow> broker_calls (f i) = [p, s]"
  shows "broker_calls (concat (map f xs)) = concat (replicate (length xs) [p, s])"
  using assms by (induction xs) simp_all

lemma retry_loop_first_success:
  assumes fails: "\<forall>i<N. \<not> publish_result env k i" and ok: "publish_result env k N"
    and lt: "N < nat n" and sl: "sleep_raises env d = None"
    and aid: "asset_id_of payload = Inr asset_id"
  shows "snd (for_break (attempt_publish a env k ty (JStr t) payload pp to (JInt n) d)
                [0..<nat n]) = Inr True
       \<and> broker_calls (fst (for_break (attempt_publish a env k ty (JStr t) payload pp to (JInt n) d)
                [0..<nat n])) = retry_pattern (Publish (JStr t) pp to) (Sleep d) (Suc N)"
proof -
  let ?body = "attempt_publish a env k ty (JStr t) payload pp to (JInt n) d"
  have failed: "?body i = (retry_line a i (JInt n) @ [Publish (JStr t) pp to] @ [Sleep d], Inr False)"
    if "i < N" for i
  proof -
    from that lt have "int i < n - 1" by linarith
    with attempt_publish_failed [of env k i d a ty "JStr t" payload pp to n] fails that sl
    show ?thesis by simp
  qed
  have all: "\<forall>x\<in>set [0..<N]. snd (?body x) = Inr False"
    using failed by simp
  have last: "?body N = (retry_line a N (JInt n) @ [Publish (JStr t) pp to,
              Stdout (if verbose a
                      then PublishedVerbose ty asset_id (JStr t) (suffix wrapper_key t)
                      else Published ty (JStr t))], Inr True)"
    by (rule attempt_publish_succeeded [OF ok aid])
  then have s: "snd (?body N) = Inr True" by simp
  have fb: "for_break ?body [0..<nat n] =
      (concat (map (\<lambda>x. fst (?body x)) [0..<N]) @ fst (?body N), Inr True)"
    unfolding upt_split_at [OF lt] by (rule for_break_first_success [OF all s])
  have "broker_calls (concat (map (\<lambda>x. fst (?body x)) [0..<N])) =
          concat (replicate (length [0..<N]) [Publish (JStr t) pp to, Sleep d])"
    by (rule broker_calls_concat_sleeping) (simp add: failed)
  moreover have "broker_calls (fst (?body N)) = [Publish (JStr t) pp to]"
    using last by simp
  ultimately show ?thesis using fb by (simp add: retry_pattern_Suc)
qed

lemma retry_loop_exhausted:
  assumes fails: "\<forall>i<nat n. \<not> publish_result env k i" and sl: "sleep_raises env d = None"
  shows "snd (for_break (attempt_publish a env k ty topic payload pp to (JInt n) d)
                [0..<nat n]) = Inr False
       \<and> broker_calls (fst (for_break (attempt_publish a env k ty topic payload pp to (JInt n) d)
                [0..<nat n])) = retry_pattern (Publish topic pp to) (Sleep d) (nat n)"
proof -
  let ?body = "attempt_publish a env k ty topic payload pp to (JInt n) d"
  have failed: "?body i = (retry_line a i (JInt n) @ [Publish topic pp to]
        @ (if int i < n - 1 then [Sleep d] else []), Inr False)"
    if "i < nat n" for i
    using attempt_publish_failed [of env k i d a ty topic payload pp to n] fails that sl
    by simp
  have all: "\<forall>x\<in>set [0..<nat n]. snd (?body x) = Inr False"
    using failed by simp
  note fb = for_break_all_failed [OF all]
  show ?thesis
  proof (cases "nat n")
    case 0
    with fb show ?thesis by (simp add: retry_pattern_def)
  next
    case (Suc m)
    have early: "broker_calls (fst (?body i)) = [Publish topic pp to, Sleep d]" if "i \<in> set [0..<m]" for i
    proof -
      from that Suc have "i < nat n" and "int i < n - 1" by auto
      with failed [of i] show ?thesis by simp
    qed
    have final: "broker_calls (fst (?body m)) = [Publish topic pp to]"
    proof -
      from Suc have "m < nat n" and "\<not> int m < n - 1" by auto
      with failed [of m] show ?thesis by simp
    qed
    have "broker_calls (concat (map (\<lambda>x. fst (?body x)) [0..<m])) =
            concat (replicate (length [0..<m]) [Publish topic pp to, Sleep d])"
      by (rule broker_calls_concat_sleeping) (rule early)
    with final fb Suc show ?thesis by (simp add: retry_pattern_Suc)
  qed
qed

text \<open>No job calls \<open>publish\<close> more often than \<open>retry_attempts\<close> allows.\<close>

lemma publish_calls_for_break:
  assumes "\<And>x. publish_calls (fst (body x)) \<le> 1"
  shows "publish_calls (fst (for_break body xs)) \<le> length xs"
proof (induction xs)
  case Nil
  show ?case by simp
next
  case (Cons x xs)
  obtain tr r where b: "body x = (tr, r)" by (cases "body x")
  with assms [of x] have tr: "publish_calls tr \<le> 1" by simp
  show ?case
  proof (cases r)
    case (Inl e)
    with b tr show ?thesis by simp
  next
    case (Inr ok)
    with b tr Cons.IH show ?thesis by (cases ok) (auto split: prod.splits)
  qed
qed

lemma publish_calls_bind_io:
  "publish_calls (fst (bind_io m f)) =
     publish_calls (fst m) + (case snd m of Inl e \<Rightarrow> 0 | Inr x \<Rightarrow> publish_calls (fst (f x)))"
  by (cases m; cases "snd m") auto

lemma publish_calls_py_sleep [simp]: "publish_calls (fst (py_sleep raises d)) = 0"
  by (simp add: py_sleep_def split: option.splits)

lemma publish_calls_attempt_publish:
  "publish_calls (fst (attempt_publish a env k ty topic payload pp to ra d i)) \<le> 1"
  by (simp add: attempt_publish_def publish_calls_bind_io split: sum.splits)

lemma publish_calls_publish_with_retry:
  assumes "py_get gs ''retry_attempts'' (JInt 3) = Inr (JInt n)"
  shows "publish_calls (fst (publish_with_retry a env gs k ty topic payload pp)) \<le> nat n"
proof -
  have "publish_calls (fst (for_break (attempt_publish a env k ty topic payload pp to (JInt n) d)
          [0..<nat n])) \<le> nat n" for to d
    using publish_calls_for_break [of "attempt_publish a env k ty topic payload pp to (JInt n) d"
        "[0..<nat n]"] publish_calls_attempt_publish
    by simp
  then show ?thesis
    using assms
    by (auto simp: publish_with_retry_def publish_calls_bind_io py_range_def split: sum.splits)
qed

lemma retry_outcomes:
  assumes timeout: "py_get gs ''publish_timeout'' (JInt 30) = Inr to"
    and attempts: "py_get gs ''retry_attempts'' (JInt 3) = Inr (JInt n)"
    and delay: "py_get gs ''retry_delay'' (JInt 1) = Inr d"
    and sl: "sleep_raises env d = None"
    and aid: "asset_id_of payload = Inr asset_id"
    and fails: "\<forall>i<N. \<not> publish_result env k i"
  shows "(N < nat n \<and> publish_result env k N \<longrightarrow>
            snd (publish_with_retry a env gs k ty (JStr t) payload pp) = Inr True
          \<and> broker_calls (fst (publish_with_retry a env gs k ty (JStr t) payload pp)) =
              retry_pattern (Publish (JStr t) pp to) (Sleep d) (Suc N)
          \<and> publish_calls (fst (publish_with_retry a env gs k ty (JStr t) payload pp)) = Suc N)
       \<and> (N = nat n \<longrightarrow>
            snd (publish_with_retry a env gs k ty (JStr t) payload pp) = Inr False
          \<and> broker_calls (fst (publish_with_retry a env gs k ty (JStr t) payload pp)) =
              retry_pattern (Publish (JStr t) pp to) (Sleep d) N
          \<and> publish_calls (fst (publish_with_retry a env gs k ty (JStr t) payload pp)) = N
          \<and> Stderr (FailedToPublish ty (JInt n))
              \<in> set (fst (publish_with_retry a env gs k ty (JStr t) payload pp)))"
proof -
  let ?loop = "for_break (attempt_publish a env k ty (JStr t) payload pp to (JInt n) d) [0..<nat n]"
  have pwr: "publish_with_retry a env gs k ty (JStr t) payload pp =
      (fst ?loop @ (case snd ?loop of Inl e \<Rightarrow> []
                    | Inr broke \<Rightarrow>
                        if broke then [] else [Stderr (FailedToPublish ty (JInt n))]),
       snd ?loop)"
    using timeout attempts delay
    by (cases ?loop; cases "snd ?loop") (auto simp: publish_with_retry_def py_range_def)
  have calls: "publish_calls tr = m"
    if "broker_calls tr = retry_pattern (Publish (JStr t) pp to) (Sleep d) m" for tr m
    using publish_calls_broker_calls [of tr] that by (simp add: publish_calls_retry_pattern)
  have first: "snd (publish_with_retry a env gs k ty (JStr t) payload pp) = Inr True
          \<and> broker_calls (fst (publish_with_retry a env gs k ty (JStr t) payload pp)) =
              retry_pattern (Publish (JStr t) pp to) (Sleep d) (Suc N)"
    if "N < nat n" and "publish_result env k N"
    using retry_loop_first_success [OF fails that(2) that(1) sl aid, of a ty t pp to] pwr
    by simp
  have second: "snd (publish_with_retry a env gs k ty (JStr t) payload pp) = Inr False
          \<and> broker_calls (fst (publish_with_retry a env gs k ty (JStr t) payload pp)) =
              retry_pattern (Publish (JStr t) pp to) (Sleep d) N
          \<and> Stderr (FailedToPublish ty (JInt n))
              \<in> set (fst (publish_with_retry a env gs k ty (JStr t) payload pp))"
    if "N = nat n"
    using retry_loop_exhausted [OF fails [unfolded that] sl, of a ty "JStr t" payload pp to] pwr that
    by simp
  from first second calls show ?thesis by blast
qed

text \<open>
  C2. A job in live mode with \<open>retry_attempts = n\<close> never calls \<open>publish\<close> more than
  \<open>n\<close> times. With a delay that \<open>sleep\<close> accepts and a payload with an asset
  identifier: when \<open>publish\<close> fails \<open>N\<close> times and then succeeds, and \<open>N < n\<close> (so
  also for \<open>n = N + 1\<close>), the job is reported successful after exactly \<open>N + 1\<close> calls;
  when it fails \<open>n\<close> times the job is reported failed after exactly \<open>n\<close> calls. In
  both cases there is one sleep of \<open>retry_delay\<close> between consecutive calls, none after
  the last, and nothing after the first success.
\<close>

theorem retry_semantics:
  assumes attempts: "py_get gs ''retry_attempts'' (JInt 3) = Inr (JInt n)"
  shows "publish_calls (fst (publish_with_retry a env gs k ty topic payload pp)) \<le> nat n
       \<and> (py_get gs ''publish_timeout'' (JInt 30) = Inr to
            \<and> py_get gs ''retry_delay'' (JInt 1) = Inr d
            \<and> sleep_raises env d = None
            \<and> asset_id_of payload = Inr asset_id
            \<and> (\<forall>i<N. \<not> publish_result env k i) \<longrightarrow>
          (N < nat n \<and> publish_result env k N \<longrightarrow>
             snd (publish_with_retry a env gs k ty (JStr t) payload pp) = Inr True
           \<and> broker_calls (fst (publish_with_retry a env gs k ty (JStr t) payload pp)) =
               retry_pattern (Publish (JStr t) pp to) (Sleep d) (Suc N)
           \<and> publish_calls (fst (publish_with_retry a env gs k ty (JStr t) payload pp)) = Suc N)
        \<and> (N = nat n \<longrightarrow>
             snd (publish_with_retry a env gs k ty (JStr t) payload pp) = Inr False
           \<and> broker_calls (fst (publish_with_retry a env gs k ty (JStr t) payload pp)) =
               retry_pattern (Publish (JStr t) pp to) (Sleep d) N
           \<and> publish_calls (fst (publish_with_retry a env gs k ty (JStr t) payload pp)) = N
           \<and> Stderr (FailedToPublish ty (JInt n))
               \<in> set (fst (publish_with_retry a env gs k ty (JStr t) payload pp))))"
proof (intro conjI impI)
  show "publish_calls (fst (publish_with_retry a env gs k ty topic payload pp)) \<le> nat n"
    by (rule publish_calls_publish_with_retry [OF attempts])
next
  assume h: "py_get gs ''publish_timeout'' (JInt 30) = Inr to
            \<and> py_get gs ''retry_delay'' (JInt 1) = Inr d
            \<and> sleep_raises env d = None
            \<and> asset_id_of payload = Inr asset_id
            \<and> (\<forall>i<N. \<not> publish_result env k i)"
  then have o: "(N < nat n \<and> publish_result env k N \<longrightarrow>
            snd (publish_with_retry a env gs k ty (JStr t) payload pp) = Inr True
          \<and> broker_calls (fst (publish_with_retry a env gs k ty (JStr t) payload pp)) =
              retry_pattern (Publish (JStr t) pp to) (Sleep d) (Suc N)
          \<and> publish_calls (fst (publish_with_retry a env gs k ty (JStr t) payload pp)) = Suc N)
       \<and> (N = nat n \<longrightarrow>
            snd (publish_with_retry a env gs k ty (JStr t) payload pp) = Inr False
          \<and> broker_calls (fst (publish_with_retry a env gs k ty (JStr t) payload pp)) =
              retry_pattern (Publish (JStr t) pp to) (Sleep d) N
          \<and> publish_calls (fst (publish_with_retry a env gs k ty (JStr t) payload pp)) = N
          \<and> Stderr (FailedToPublish ty (JInt n))
              \<in> set (fst (publish_with_retry a env gs k ty (JStr t) payload pp)))"
    using retry_outcomes [OF _ attempts, of to d env payload asset_id N k a ty t pp] by blast
  {
    assume "N < nat n \<and> publish_result env k N"
    with o show "snd (publish_with_retry a env gs k ty (JStr t) payload pp) = Inr True" by blast
    from o \<open>N < nat n \<and> publish_result env k N\<close>
    show "broker_calls (fst (publish_with_retry a env gs k ty (JStr t) payload pp)) =
              retry_pattern (Publish (JStr t) pp to) (Sleep d) (Suc N)" by blast
    from o \<open>N < nat n \<and> publish_result env k N\<close>
    show "publish_calls (fst (publish_with_retry a env gs k ty (JStr t) payload pp)) = Suc N"
      by blast
  }
  {
    assume e: "N = nat n"
    with o show "snd (publish_with_retry a env gs k ty (JStr t) payload pp) = Inr False" by blast
    from o e show "broker_calls (fst (publish_with_retry a env gs k ty (JStr t) payload pp)) =
              retry_pattern (Publish (JStr t) pp to) (Sleep d) N" by blast
    from o e show "publish_calls (fst (publish_with_retry a env gs k ty (JStr t) payload pp)) = N"
      by blast
    from o e show "Stderr (FailedToPublish ty (JInt n))
              \<in> set (fst (publish_with_retry a env gs k ty (JStr t) payload pp))" by blast
  }
qed

text \<open>A broker that fails once and then succeeds, with \<open>retry_attempts\<close> 2 and 1.\<close>

theorem retry_semantics_witness:
  "\<not> publish_result sample_env 0 0 \<and> publish_result sample_env 0 1
   \<and> snd (publish_with_retry \<lparr>verbose = False, dry_run = False\<rparr> sample_env
            (JObj [(''retry_attempts'', JInt 2)]) 0 (JStr ''pump'') (JStr ''plant/pump'')
            sample_payload sample_payload) = Inr True
   \<and> broker_calls (fst (publish_with_retry \<lparr>verbose = False, dry_run = False\<rparr> sample_env
            (JObj [(''retry_attempts'', JInt 2)]) 0 (JStr ''pump'') (JStr ''plant/pump'')
            sample_payload sample_payload)) =
       [Publish (JStr ''plant/pump'') sample_payload (JInt 30), Sleep (JInt 1),
        Publish (JStr ''plant/pump'') sample_payload (JInt 30)]
   \<and> snd (publish_with_retry \<lparr>verbose = False, dry_run = False\<rparr> sample_env
            (JObj [(''retry_attempts'', JInt 1)]) 0 (JStr ''pump'') (JStr ''plant/pump'')
            sample_payload sample_payload) = Inr False
   \<and> broker_calls (fst (publish_with_retry \<lparr>verbose = False, dry_run = False\<rparr> sample_env
            (JObj [(''retry_attempts'', JInt 1)]) 0 (JStr ''pump'') (JStr ''plant/pump'')
            sample_payload sample_payload)) =
       [Publish (JStr ''plant/pump'') sample_payload (JInt 30)]
   \<and> publish_calls (fst (publish_with_retry \<lparr>verbose = False, dry_run = False\<rparr> sample_env
            (JObj [(''retry_attempts'', JInt 1)]) 0 (JStr ''pump'') (JStr ''plant/pump'')
            sample_payload sample_payload)) \<le> 1"
proof -
  let ?a = "\<lparr>verbose = False, dry_run = False\<rparr>"
  let ?gs2 = "JObj [(''retry_attempts'', JInt 2)]"
  let ?gs1 = "JObj [(''retry_attempts'', JInt 1)]"
  let ?p = "Publish (JStr ''plant/pump'') sample_payload (JInt 30)"
  have f0: "\<not> publish_result sample_env 0 0" by code_simp
  have s1: "publish_result sample_env 0 1" by code_simp
  from f0 have fails: "\<forall>i<1. \<not> publish_result sample_env 0 i" by simp
  have to2: "py_get ?gs2 ''publish_timeout'' (JInt 30) = Inr (JInt 30)" by code_simp
  have n2: "py_get ?gs2 ''retry_attempts'' (JInt 3) = Inr (JInt 2)" by code_simp
  have d2: "py_get ?gs2 ''retry_delay'' (JInt 1) = Inr (JInt 1)" by code_simp
  have to1: "py_get ?gs1 ''publish_timeout'' (JInt 30) = Inr (JInt 30)" by code_simp
  have n1: "py_get ?gs1 ''retry_attempts'' (JInt 3) = Inr (JInt 1)" by code_simp
  have d1: "py_get ?gs1 ''retry_delay'' (JInt 1) = Inr (JInt 1)" by code_simp
  have sl: "sleep_raises sample_env (JInt 1) = None" by code_simp
  have aid: "asset_id_of sample_payload = Inr (JStr ''PRESS-1234'')" by code_simp
  have p2: "retry_pattern ?p (Sleep (JInt 1)) (Suc 1) = [?p, Sleep (JInt 1), ?p]"
    by (simp add: retry_pattern_def)
  have p1: "retry_pattern ?p (Sleep (JInt 1)) 1 = [?p]"
    by (simp add: retry_pattern_def)
  have lt: "(1::nat) < nat 2" and eq: "(1::nat) = nat 1" by simp_all
  from retry_semantics [OF n2, of ?a sample_env 0 "JStr ''pump''" "JStr ''plant/pump''"
         sample_payload sample_payload "JInt 30" "JInt 1" "JStr ''PRESS-1234''" 1 "''plant/pump''"]
       to2 d2 sl aid fails lt s1
  have r2: "snd (publish_with_retry ?a sample_env ?gs2 0 (JStr ''pump'') (JStr ''plant/pump'')
            sample_payload sample_payload) = Inr True
     \<and> broker_calls (fst (publish_with_retry ?a sample_env ?gs2 0 (JStr ''pump'')
            (JStr ''plant/pump'') sample_payload sample_payload)) =
         retry_pattern ?p (Sleep (JInt 1)) (Suc 1)"
    by blast
  from retry_semantics [OF n1, of ?a sample_env 0 "JStr ''pump''" "JStr ''plant/pump''"
         sample_payload sample_payload "JInt 30" "JInt 1" "JStr ''PRESS-1234''" 1 "''plant/pump''"]
       to1 d1 sl aid fails eq
  have r1: "snd (publish_with_retry ?a sample_env ?gs1 0 (JStr ''pump'') (JStr ''plant/pump'')
            sample_payload sample_payload) = Inr False
     \<and> broker_calls (fst (publish_with_retry ?a sample_env ?gs1 0 (JStr ''pump'')
            (JStr ''plant/pump'') sample_payload sample_payload)) =
         retry_pattern ?p (Sleep (JInt 1)) 1
     \<and> publish_calls (fst (publish_with_retry ?a sample_env ?gs1 0 (JStr ''pump'')
            (JStr ''plant/pump'') sample_payload sample_payload)) \<le> nat 1"
    by blast
  from f0 s1 r2 r1 show ?thesis unfolding p2 p1 by simp
qed

section \<open>The topic-shape transform\<close>

lemma published_append [simp]: "published_payloads (xs @ ys) = published_payloads xs @ published_payloads ys"
  by (induction xs rule: published_payloads.induct) simp_all







lemma published_generate_machine_payload:
  "published_payloads (fst (generate_machine_payload outcome ty)) = []"
  by (simp add: generate_machine_payload_def split: sum.splits)



section \<open>MQTTPublisher.publish\<close>

text \<open>The wait loop returns when the acknowledgment is seen or the clock runs out.\<close>

lemma wait_for_ack_skip:
  assumes "\<forall>i. j \<le> i \<and> i < k \<longrightarrow> \<not> ack i \<and> clock i = Inr True" and "j \<le> k"
  shows "wait_for_ack ack clock j = wait_for_ack ack clock k"
  using assms
proof (induction "k - j" arbitrary: j)
  case 0
  then show ?case by simp
next
  case (Suc d)
  then have "j < k" by simp
  with Suc.prems have here: "\<not> ack j" "clock j = Inr True" by auto
  have "wait_for_ack ack clock j = wait_for_ack ack clock (Suc j)"
    using here by (subst wait_for_ack.simps) simp
  also have "\<dots> = wait_for_ack ack clock k"
  proof (rule Suc.hyps(1))
    show "d = k - Suc j" using Suc.hyps(2) by simp
    show "\<forall>i. Suc j \<le> i \<and> i < k \<longrightarrow> \<not> ack i \<and> clock i = Inr True"
      using Suc.prems(1) by auto
    show "Suc j \<le> k" using \<open>j < k\<close> by simp
  qed
  finally show ?case .
qed

lemma wait_for_ack_times_out:
  assumes "\<forall>i<k. \<not> ack i \<and> clock i = Inr True" and "\<not> ack k" and "clock k = Inr False"
  shows "wait_for_ack ack clock 0 = Some (k, None)"
proof -
  have "wait_for_ack ack clock 0 = wait_for_ack ack clock k"
    by (rule wait_for_ack_skip) (use assms(1) in auto)
  also have "\<dots> = Some (k, None)"
    using assms(2,3) by (subst wait_for_ack.simps) simp
  finally show ?thesis .
qed

lemma wait_for_ack_acknowledged:
  assumes "\<forall>i<k. \<not> ack i \<and> clock i = Inr True" and "ack k"
  shows "wait_for_ack ack clock 0 = Some (k, None)"
proof -
  have "wait_for_ack ack clock 0 = wait_for_ack ack clock k"
    by (rule wait_for_ack_skip) (use assms(1) in auto)
  also have "\<dots> = Some (k, None)"
    using assms(2) by (subst wait_for_ack.simps) simp
  finally show ?thesis .
qed

lemma publish_not_connected:
  assumes "\<not> connected_flag env"
  shows "publish broker_config env topic payload timeout = Some ([NotConnected], Inr False)"
  using assms by (simp add: publish_def)

lemma publish_True_delivered:
  assumes "publish broker_config env topic payload timeout = Some (tr, Inr True)"
  shows "connected_flag env \<and> (\<exists>mid k. client_publish env = Inr (MQTT_ERR_SUCCESS, mid)
           \<and> wait_for_ack (acked env) (in_time env timeout) 0 = Some (k, None) \<and> acked env (Suc k))"
proof -
  from assms have c: "connected_flag env"
    by (auto simp: publish_def split: if_splits)
  with assms obtain tr' where b: "publish_body broker_config env topic payload timeout = Some (tr', Inr True)"
    by (auto simp: publish_def split: option.splits prod.splits sum.splits if_splits)
  then have "\<exists>mid k. client_publish env = Inr (MQTT_ERR_SUCCESS, mid)
           \<and> wait_for_ack (acked env) (in_time env timeout) 0 = Some (k, None) \<and> acked env (Suc k)"
    unfolding publish_body_def
    by (auto split: sum.splits prod.splits if_splits option.splits)
  with c show ?thesis by simp
qed

lemma publish_refused:
  assumes "connected_flag env" and "client_publish env = Inr (rc, mid)" and "rc \<noteq> MQTT_ERR_SUCCESS"
  shows "\<exists>tr. publish broker_config env topic payload timeout = Some (tr, Inr False)"
  using assms
  by (cases broker_config) (auto simp: publish_def publish_body_def)

lemma publish_timed_out:
  assumes "connected_flag env" and "client_publish env = Inr (MQTT_ERR_SUCCESS, mid)"
    and "\<forall>i<k. \<not> acked env i \<and> in_time env timeout i = Inr True"
    and "\<not> acked env k" and "in_time env timeout k = Inr False" and "\<not> acked env (Suc k)"
  shows "\<exists>tr. publish broker_config env topic payload timeout = Some (tr, Inr False)"
proof -
  note w = wait_for_ack_times_out [OF assms(3,4,5)]
  show ?thesis
    using assms(1,2,6) w
    by (cases broker_config) (auto simp: publish_def publish_body_def)
qed

text \<open>The only exception that can leave \<open>publish\<close> is one that \<open>except Exception\<close>
  does not take.\<close>

lemma publish_never_raises:
  assumes "publish broker_config env topic payload timeout = Some (tr, Inl e)"
  shows "\<not> is_Exception e"
  using assms
  by (auto simp: publish_def split: if_splits option.splits prod.splits sum.splits)

text \<open>
  C7. A call of \<open>publish\<close> on a session that is not connected returns \<open>False\<close> at once,
  without a call of the client. A call returns \<open>True\<close> only if the session is connected,
  the client accepted the message, the wait loop ended and the acknowledgment callback
  had marked the message by the read that follows it. When the client returns an error
  code, and when the clock runs out with no acknowledgment, the call returns \<open>False\<close>:
  it returns, and it does not raise.
\<close>

theorem publish_outcomes:
  "(\<not> connected_flag env \<longrightarrow>
      publish broker_config env topic payload timeout = Some ([NotConnected], Inr False))
   \<and> (\<forall>tr. publish broker_config env topic payload timeout = Some (tr, Inr True) \<longrightarrow>
        connected_flag env
        \<and> (\<exists>mid k. client_publish env = Inr (MQTT_ERR_SUCCESS, mid)
              \<and> wait_for_ack (acked env) (in_time env timeout) 0 = Some (k, None)
              \<and> acked env (Suc k)))
   \<and> (\<forall>rc mid. connected_flag env \<and> client_publish env = Inr (rc, mid)
          \<and> rc \<noteq> MQTT_ERR_SUCCESS \<longrightarrow>
        (\<exists>tr. publish broker_config env topic payload timeout = Some (tr, Inr False)))
   \<and> (\<forall>mid k. connected_flag env \<and> client_publish env = Inr (MQTT_ERR_SUCCESS, mid)
          \<and> (\<forall>i<k. \<not> acked env i \<and> in_time env timeout i = Inr True)
          \<and> \<not> acked env k \<and> in_time env timeout k = Inr False \<and> \<not> acked env (Suc k) \<longrightarrow>
        (\<exists>tr. publish broker_config env topic payload timeout = Some (tr, Inr False)))"
  using publish_not_connected [of env broker_config topic payload timeout]
    publish_True_delivered [of broker_config env topic payload timeout]
    publish_refused [of env _ _ broker_config topic payload timeout]
    publish_timed_out [where env = env and timeout = timeout and broker_config = broker_config
      and topic = topic and payload = payload]
  by blast

text \<open>The four brokers.\<close>

theorem publish_outcomes_witness:
  "\<not> connected_flag offline_env
   \<and> publish (JObj []) offline_env (JStr ''plant/pump'') sample_payload (JInt 30) =
       Some ([NotConnected], Inr False)
   \<and> publish (JObj []) acked_env (JStr ''plant/pump'') sample_payload (JInt 30) =
       Some ([ClientPublish (JStr ''plant/pump'') sample_payload (JInt 0) (JBool False),
              PollSleep, PollSleep, PollSleep], Inr True)
   \<and> connected_flag acked_env
   \<and> (\<exists>mid k. client_publish acked_env = Inr (MQTT_ERR_SUCCESS, mid)
         \<and> wait_for_ack (acked acked_env) (in_time acked_env (JInt 30)) 0 = Some (k, None)
         \<and> acked acked_env (Suc k))
   \<and> client_publish refused_env = Inr (4, 9)
   \<and> (\<exists>tr. publish (JObj []) refused_env (JStr ''plant/pump'') sample_payload (JInt 30) =
         Some (tr, Inr False))
   \<and> in_time silent_env (JInt 30) 2 = Inr False
   \<and> (\<exists>tr. publish (JObj []) silent_env (JStr ''plant/pump'') sample_payload (JInt 30) =
         Some (tr, Inr False))"
proof -
  let ?t = "JStr ''plant/pump''"
  have o: "\<not> connected_flag offline_env" by code_simp
  have a: "publish (JObj []) acked_env ?t sample_payload (JInt 30) =
       Some ([ClientPublish ?t sample_payload (JInt 0) (JBool False),
              PollSleep, PollSleep, PollSleep], Inr True)"
    by code_simp
  have r: "connected_flag refused_env \<and> client_publish refused_env = Inr (4, 9)
             \<and> 4 \<noteq> MQTT_ERR_SUCCESS"
    by code_simp
  have s0: "connected_flag silent_env \<and> client_publish silent_env = Inr (MQTT_ERR_SUCCESS, 8)"
    by code_simp
  have s1: "\<not> acked silent_env 0 \<and> in_time silent_env (JInt 30) 0 = Inr True" by code_simp
  have s2: "\<not> acked silent_env (Suc 0) \<and> in_time silent_env (JInt 30) (Suc 0) = Inr True"
    by code_simp
  have s3: "\<not> acked silent_env 2 \<and> in_time silent_env (JInt 30) 2 = Inr False
              \<and> \<not> acked silent_env (Suc 2)"
    by code_simp
  from s1 s2 have s4: "\<forall>i<2. \<not> acked silent_env i \<and> in_time silent_env (JInt 30) i = Inr True"
    by (metis less_2_cases)
  note w = publish_outcomes
  from w [of offline_env "JObj []" ?t sample_payload "JInt 30"] o
  have c1: "publish (JObj []) offline_env ?t sample_payload (JInt 30) =
              Some ([NotConnected], Inr False)"
    by blast
  from w [of acked_env "JObj []" ?t sample_payload "JInt 30"] a
  have c2: "connected_flag acked_env
     \<and> (\<exists>mid k. client_publish acked_env = Inr (MQTT_ERR_SUCCESS, mid)
         \<and> wait_for_ack (acked acked_env) (in_time acked_env (JInt 30)) 0 = Some (k, None)
         \<and> acked acked_env (Suc k))"
    by blast
  from w [of refused_env "JObj []" ?t sample_payload "JInt 30"] r
  have c3: "\<exists>tr. publish (JObj []) refused_env ?t sample_payload (JInt 30) = Some (tr, Inr False)"
    by blast
  from w [of silent_env "JObj []" ?t sample_payload "JInt 30"] s0 s3 s4
  have c4: "\<exists>tr. publish (JObj []) silent_env ?t sample_payload (JInt 30) = Some (tr, Inr False)"
    by blast
  from o c1 a c2 r c3 s3 c4 show ?thesis by blast
qed

end
